theory Spec2Isabelle
  imports Complex_Main "HOL-Library.Sublist" "HOL-Library.AList"
begin

section \<open>Values and strings\<close>

text \<open>
  The plugin is TypeScript. A JavaScript \<open>number\<close> is modelled as a \<open>real\<close>
  (no rounding error, no NaN, no infinities), an instant (\<open>Date\<close>, \<open>Date.now()\<close>)
  as an \<open>int\<close> of milliseconds since the epoch, \<open>null\<close>/\<open>undefined\<close> as
  \<open>None\<close>. An object that is filled by assignments \<open>obj[key] = v\<close> is an association
  list in insertion order, written with \<open>AList.update\<close> (a second assignment to a key
  overwrites in place, as in JavaScript) and read with \<open>map_of\<close>.
\<close>

datatype jsval = Num real | Str string | Bool bool

text \<open>\<open>s.includes(p)\<close>: \<open>p\<close> occurs in \<open>s\<close> as a contiguous substring.\<close>

fun str_includes :: "string \<Rightarrow> string \<Rightarrow> bool" where
  "str_includes [] p = (p = [])"
| "str_includes (c # s) p = (prefix p (c # s) \<or> str_includes s p)"

text \<open>\<open>s.replace(p, r)\<close> with a string pattern: the first occurrence only.\<close>

fun str_replace :: "string \<Rightarrow> string \<Rightarrow> string \<Rightarrow> string" where
  "str_replace [] p r = (if p = [] then r else [])"
| "str_replace (c # s) p r =
     (if prefix p (c # s) then r @ drop (length p) (c # s) else c # str_replace s p r)"

section \<open>Unit converter (index.ts, lines 301-305)\<close>

definition degToRad :: "real \<Rightarrow> real" where
  "degToRad degrees = degrees * (pi / 180)"

definition celsiusToKelvin :: "real \<Rightarrow> real" where
  "celsiusToKelvin celsius = celsius + 273.15"

definition mbToPA :: "real \<Rightarrow> real" where
  "mbToPA mb = mb * 100"

definition mmToM :: "real \<Rightarrow> real" where
  "mmToM mm = mm / 1000"

definition percentToRatio :: "real \<Rightarrow> real" where
  "percentToRatio percent = percent / 100"

section \<open>Douglas sea state descriptions (lines 308-338)\<close>

text \<open>
  \<open>Math.round\<close> is \<open>\<lfloor>x + 1/2\<rfloor>\<close>, which is HOL's \<open>round\<close>. The tables are the
  object literals of the source, keyed by the integers 0 to 9; a key outside gives
  \<open>undefined\<close>. \<open>a || b\<close> on strings takes \<open>b\<close> when \<open>a\<close> is \<open>undefined\<close> or empty.
\<close>

definition simpleDescriptions :: "(int \<times> string) list" where
  "simpleDescriptions =
     [(0, ''Calm''), (1, ''Calm''), (2, ''Smooth''), (3, ''Slight''), (4, ''Moderate''),
      (5, ''Rough''), (6, ''Very rough''), (7, ''High''), (8, ''Very high''),
      (9, ''Phenomenal'')]"

definition verboseDescriptions :: "(int \<times> string) list" where
  "verboseDescriptions =
     [(0, ''Calm (0m) - Sea like a mirror''),
      (1, ''Calm (0-0.1m) - Ripples with appearance of scales, no foam crests''),
      (2, ''Smooth (0.1-0.5m) - Small wavelets, crests of glassy appearance, not breaking''),
      (3, ''Slight (0.5-1.25m) - Large wavelets, crests begin to break, scattered whitecaps''),
      (4, ''Moderate (1.25-2.5m) - Small waves becoming longer, numerous whitecaps''),
      (5, ''Rough (2.5-4m) - Moderate waves, many whitecaps, some spray''),
      (6, ''Very rough (4-6m) - Large waves, whitecaps everywhere, more spray''),
      (7, ''High (6-9m) - Sea heaps up, white foam streaks off breakers''),
      (8, ''Very high (9-14m) - Moderately high waves, crests break into spindrift''),
      (9, ''Phenomenal (>14m) - High waves, dense foam, sea completely white with driving spray'')]"

definition str_or :: "string option \<Rightarrow> string \<Rightarrow> string" where
  "str_or a b = (case a of None \<Rightarrow> b | Some s \<Rightarrow> if s = [] then b else s)"

definition douglasSeaStateSimple :: "real \<Rightarrow> string" where
  "douglasSeaStateSimple scale = str_or (map_of simpleDescriptions (round scale)) ''Unknown''"

text \<open>
  The verbose fallback is the template \<open>Unknown (${scale})\<close>. How JavaScript prints a
  number is not part of the plugin: it is the parameter \<open>numToString\<close>.
\<close>

definition douglasSeaStateVerbose :: "(real \<Rightarrow> string) \<Rightarrow> real \<Rightarrow> string" where
  "douglasSeaStateVerbose numToString scale =
     str_or (map_of verboseDescriptions (round scale))
       (''Unknown ('' @ numToString scale @ '')'')"

section \<open>Field-to-conversion dispatch (lines 1615-1653 and 1702-1740)\<close>

text \<open>
  The body of \<open>allowedFields.forEach\<close>, the same text in the hourly and the daily
  processor, for a field whose value is present: the assignments it makes to the
  forecast object, in order.
\<close>

definition applyUnitConversion ::
  "(real \<Rightarrow> string) \<Rightarrow> string \<Rightarrow> real \<Rightarrow> (string \<times> jsval) list" where
  "applyUnitConversion numToString field v =
     (if str_includes field ''temperature'' \<or> field = ''felttemperature'' then
        [(field, Num (celsiusToKelvin v))]
      else if str_includes field ''direction'' \<or> field = ''winddirection'' then
        [(field, Num (degToRad v))]
      else if field = ''precipitation'' \<or> field = ''convective_precipitation'' then
        [(field, Num (mmToM v))]
      else if str_includes field ''pressure'' \<or> field = ''sealevelpressure'' then
        [(field, Num (mbToPA v))]
      else if str_includes field ''humidity'' \<or> str_includes field ''cloudcover'' then
        [(field, Num (percentToRatio v))]
      else if str_includes field ''precipitation_probability'' then
        [(field, Num (percentToRatio v))]
      else if field = ''douglas_seastate'' then
        [(field, Num v),
         (''douglas_seastate_description'', Str (douglasSeaStateSimple v)),
         (''douglas_seastate_verbose'', Str (douglasSeaStateVerbose numToString v))]
      else
        [(field, Num v)])"

text \<open>
  The dispatch as the specification words it: an ordered list of (predicate,
  converter) pairs, the first predicate that holds decides; the sea state field and
  every other field pass through. \<open>probabilityRule\<close> is the sixth predicate.
\<close>

definition specRules :: "(string \<Rightarrow> bool) \<Rightarrow> ((string \<Rightarrow> bool) \<times> (real \<Rightarrow> real)) list" where
  "specRules probabilityRule =
     [(\<lambda>f. sublist ''temperature'' f, \<lambda>v. v + 273.15),
      (\<lambda>f. sublist ''direction'' f, \<lambda>v. v * (pi / 180)),
      (\<lambda>f. f = ''precipitation'' \<or> f = ''convective_precipitation'', \<lambda>v. v / 1000),
      (\<lambda>f. sublist ''pressure'' f, \<lambda>v. v * 100),
      (\<lambda>f. sublist ''humidity'' f \<or> sublist ''cloudcover'' f \<or> probabilityRule f,
       \<lambda>v. v / 100)]"

fun firstRule :: "((string \<Rightarrow> bool) \<times> (real \<Rightarrow> real)) list \<Rightarrow> string \<Rightarrow> real \<Rightarrow> real" where
  "firstRule [] f v = v"
| "firstRule ((p, conv) # rs) f v = (if p f then conv v else firstRule rs f v)"

definition specDispatch ::
  "(string \<Rightarrow> bool) \<Rightarrow> (real \<Rightarrow> string) \<Rightarrow> string \<Rightarrow> real \<Rightarrow> (string \<times> jsval) list" where
  "specDispatch probabilityRule numToString field v =
     (if field = ''douglas_seastate'' then
        [(field, Num v),
         (''douglas_seastate_description'', Str (douglasSeaStateSimple v)),
         (''douglas_seastate_verbose'', Str (douglasSeaStateVerbose numToString v))]
      else [(field, Num (firstRule (specRules probabilityRule) field v))])"

section \<open>Package field classifier (lines 1384-1546)\<close>

text \<open>\<open>fieldMappings[packageType] || []\<close>: an unknown package owns no field.\<close>

definition hourlyFieldMappings :: "(string \<times> string list) list" where
  "hourlyFieldMappings =
     [(''basic'',
        [''temperature'', ''windspeed'', ''winddirection'', ''precipitation'', ''pictocode'',
         ''relativehumidity'', ''sealevelpressure'', ''surfaceairpressure'', ''uvindex'',
         ''felttemperature'', ''precipitation_probability'', ''isdaylight'', ''rainspot'',
         ''convective_precipitation'', ''snowfraction'', ''visibility'', ''dewpoint'',
         ''dewpointtemperature'']),
      (''wind'',
        [''windspeed'', ''winddirection'', ''gust'', ''windspeed_80m'', ''winddirection_80m'',
         ''airdensity'', ''surfaceairpressure'', ''sealevelpressure'']),
      (''sea'',
        [''seasurfacetemperature'', ''significantwaveheight'', ''surfwave_height'',
         ''windwave_height'', ''swell_significantheight'', ''mean_waveperiod'',
         ''windwave_meanperiod'', ''swell_meanperiod'', ''windwave_peakwaveperiod'',
         ''swell_peakwaveperiod'', ''mean_wavedirection'', ''windwave_direction'',
         ''swell_meandirection'', ''douglas_seastate'', ''wavesteepness'',
         ''currentvelocity_u'', ''currentvelocity_v'', ''salinity'']),
      (''solar'',
        [''uvindex'', ''sunshine_duration'', ''isdaylight'', ''solarradiation'',
         ''extraterrestrial_solar_radiation'', ''irradiance_direct_normal'',
         ''irradiance_diffuse_horizontal'', ''irradiance_global_horizontal'']),
      (''trend'',
        [''temperature'', ''precipitation'', ''windspeed'', ''winddirection'',
         ''pressure_trend'', ''temperature_trend'', ''windspeed_trend'',
         ''sealevelpressure_trend'']),
      (''clouds'',
        [''cloudcover'', ''total_cloud_cover'', ''low_cloud_cover'', ''mid_cloud_cover'',
         ''high_cloud_cover'', ''cloud_base_height'', ''cloud_top_height''])]"

definition getHourlyPackageFields :: "string \<Rightarrow> string list" where
  "getHourlyPackageFields packageType =
     (case map_of hourlyFieldMappings packageType of None \<Rightarrow> [] | Some fs \<Rightarrow> fs)"

definition dailyFieldMappings :: "(string \<times> string list) list" where
  "dailyFieldMappings =
     [(''basic'',
        [''temperature_max'', ''temperature_min'', ''temperature_mean'', ''windspeed_max'',
         ''windspeed_min'', ''windspeed_mean'', ''winddirection'', ''precipitation'',
         ''pictocode'', ''relativehumidity_max'', ''relativehumidity_min'',
         ''relativehumidity_mean'', ''sealevelpressure_max'', ''sealevelpressure_min'',
         ''sealevelpressure_mean'', ''uvindex'', ''felttemperature_max'',
         ''felttemperature_min'', ''felttemperature_mean'', ''precipitation_probability'',
         ''precipitation_hours'', ''snowfraction'', ''rainspot'', ''visibility_mean'',
         ''dewpoint_max'', ''dewpoint_min'', ''dewpoint_mean'']),
      (''wind'',
        [''windspeed_max'', ''windspeed_min'', ''windspeed_mean'', ''winddirection'',
         ''sealevelpressure_max'', ''sealevelpressure_min'', ''sealevelpressure_mean'']),
      (''sea'', [''temperature_max'', ''temperature_min'']),
      (''solar'',
        [''uvindex'', ''sunshine_duration'', ''solarradiation_max'', ''solarradiation_mean'',
         ''irradiance_direct_normal_max'', ''irradiance_diffuse_horizontal_max'',
         ''irradiance_global_horizontal_max'']),
      (''trend'',
        [''temperature_max'', ''temperature_min'', ''precipitation'', ''windspeed_max'',
         ''winddirection'']),
      (''clouds'',
        [''cloudcover_max'', ''cloudcover_min'', ''cloudcover_mean'', ''total_cloud_cover_max'',
         ''total_cloud_cover_min'', ''total_cloud_cover_mean'', ''low_cloud_cover_mean'',
         ''mid_cloud_cover_mean'', ''high_cloud_cover_mean''])]"

definition getDailyPackageFields :: "string \<Rightarrow> string list" where
  "getDailyPackageFields packageType =
     (case map_of dailyFieldMappings packageType of None \<Rightarrow> [] | Some fs \<Rightarrow> fs)"

section \<open>Dates\<close>

text \<open>
  Modelled from the ECMAScript \<open>Date\<close> object, which is not part of the plugin: local
  time is UTC plus a fixed offset \<open>tz\<close> in milliseconds (no daylight-saving change), and
  the calendar is the proleptic Gregorian one. \<open>civilFromDays\<close> gives year, month
  (1 to 12) and day of the month of a day number counted from 1970-01-01, and
  \<open>daysFromCivil\<close> goes back.
\<close>

definition civilFromDays :: "int \<Rightarrow> int \<times> int \<times> int" where
  "civilFromDays z0 =
     (let z = z0 + 719468;
          era = z div 146097;
          doe = z - era * 146097;
          yoe = (doe - doe div 1460 + doe div 36524 - doe div 146096) div 365;
          doy = doe - (365 * yoe + yoe div 4 - yoe div 100);
          mp = (5 * doy + 2) div 153;
          d = doy - (153 * mp + 2) div 5 + 1;
          m = (if mp < 10 then mp + 3 else mp - 9);
          y = yoe + era * 400 + (if m \<le> 2 then 1 else 0)
      in (y, m, d))"

definition daysFromCivil :: "int \<Rightarrow> int \<Rightarrow> int \<Rightarrow> int" where
  "daysFromCivil y0 m d =
     (let y = (if m \<le> 2 then y0 - 1 else y0);
          era = y div 400;
          yoe = y - era * 400;
          doy = (153 * (if m > 2 then m - 3 else m + 9) + 2) div 5 + d - 1;
          doe = yoe * 365 + yoe div 4 - yoe div 100 + doy
      in era * 146097 + doe - 719468)"

definition localDay :: "int \<Rightarrow> int \<Rightarrow> int" where
  "localDay tz t = (t + tz) div 86400000"

definition getFullYear :: "int \<Rightarrow> int \<Rightarrow> int" where
  "getFullYear tz t = fst (civilFromDays (localDay tz t))"

text \<open>\<open>getMonth\<close> counts from 0.\<close>

definition getMonth :: "int \<Rightarrow> int \<Rightarrow> int" where
  "getMonth tz t = fst (snd (civilFromDays (localDay tz t))) - 1"

definition getDate :: "int \<Rightarrow> int \<Rightarrow> int" where
  "getDate tz t = snd (snd (civilFromDays (localDay tz t)))"

definition getHours :: "int \<Rightarrow> int \<Rightarrow> int" where
  "getHours tz t = ((t + tz) div 3600000) mod 24"

text \<open>\<open>getDay\<close>: 0 is Sunday; 1970-01-01 was a Thursday.\<close>

definition getDay :: "int \<Rightarrow> int \<Rightarrow> int" where
  "getDay tz t = (localDay tz t + 4) mod 7"

text \<open>\<open>new Date(year, month, date, hours, 0, 0, 0)\<close>, the fields read as local time.\<close>

definition newDate :: "int \<Rightarrow> int \<Rightarrow> int \<Rightarrow> int \<Rightarrow> int \<Rightarrow> int" where
  "newDate tz y m d h = daysFromCivil y (m + 1) d * 86400000 + h * 3600000 - tz"

text \<open>
  The instant \<open>now\<close> truncated to the local hour, as both processors compute it
  (lines 1561-1569 and 1921-1929).
\<close>

definition currentHourOf :: "int \<Rightarrow> int \<Rightarrow> int" where
  "currentHourOf tz now =
     newDate tz (getFullYear tz now) (getMonth tz now) (getDate tz now) (getHours tz now)"

section \<open>Provider frames and processed forecasts\<close>

text \<open>
  One block \<open>data_1h\<close> or \<open>data_day\<close> of a provider response: the \<open>time\<close> array
  (\<open>None\<close> when it is missing or not an array) and the value arrays by field name. A
  time entry is the instant that \<open>new Date(entry)\<close> denotes; an array cell is \<open>None\<close>
  for \<open>null\<close>. Values are numbers, as \<open>MeteoblueHourlyData\<close> declares them.
\<close>

record Frame =
  time :: "int list option"
  columns :: "(string \<times> real option list) list"

text \<open>\<open>data[field]?.[dataIndex]\<close>: absent column, index out of range and \<open>null\<close> are all \<open>None\<close>.\<close>

definition cell :: "Frame \<Rightarrow> string \<Rightarrow> nat \<Rightarrow> real option" where
  "cell data field i =
     (case map_of (columns data) field of
        None \<Rightarrow> None
      | Some col \<Rightarrow> if i < length col then col ! i else None)"

text \<open>
  A processed forecast: the two entries of the object literal, and the entries
  assigned afterwards under computed keys.
\<close>

record ProcessedHourlyForecast =
  hf_timestamp :: int
  hf_relativeHour :: int
  hf_fields :: "(string \<times> jsval) list"

record ProcessedDailyForecast =
  df_date :: int
  df_dayOfWeek :: string
  df_fields :: "(string \<times> jsval) list"

text \<open>The assignments \<open>forecast[k] = v\<close>, one after the other.\<close>

definition assignAll :: "(string \<times> jsval) list \<Rightarrow> (string \<times> jsval) list \<Rightarrow> (string \<times> jsval) list" where
  "assignAll kvs obj = fold (\<lambda>(k, v). AList.update k v) kvs obj"

text \<open>One iteration of \<open>allowedFields.forEach\<close> at row \<open>dataIndex\<close>.\<close>

definition extractField ::
  "(real \<Rightarrow> string) \<Rightarrow> Frame \<Rightarrow> nat \<Rightarrow> string \<Rightarrow> (string \<times> jsval) list \<Rightarrow> (string \<times> jsval) list" where
  "extractField numToString data dataIndex field obj =
     (case cell data field dataIndex of
        None \<Rightarrow> obj
      | Some v \<Rightarrow> assignAll (applyUnitConversion numToString field v) obj)"

definition extractFields ::
  "(real \<Rightarrow> string) \<Rightarrow> Frame \<Rightarrow> nat \<Rightarrow> string list \<Rightarrow> (string \<times> jsval) list" where
  "extractFields numToString data dataIndex allowedFields =
     fold (extractField numToString data dataIndex) allowedFields []"

section \<open>Hourly and daily processors (lines 1548-1746)\<close>

text \<open>The first index whose element satisfies \<open>P\<close>: a \<open>for\<close> loop left by \<open>break\<close>.\<close>

fun firstIndexWhere :: "('a \<Rightarrow> bool) \<Rightarrow> 'a list \<Rightarrow> nat option" where
  "firstIndexWhere P [] = None"
| "firstIndexWhere P (x # xs) =
     (if P x then Some 0 else map_option Suc (firstIndexWhere P xs))"

text \<open>
  The start index (lines 1573-1594): the first row at or after the current hour, 0
  when there is none; then, when that left 0 and the first row is before the current
  hour, the first row after \<open>now\<close>, and 0 again when there is none.
\<close>

definition startIndexOf :: "int \<Rightarrow> int \<Rightarrow> int list \<Rightarrow> nat" where
  "startIndexOf tz now ts =
     (let currentHour = currentHourOf tz now;
          startIndex = (case firstIndexWhere (\<lambda>t. t \<ge> currentHour) ts of
                          None \<Rightarrow> 0 | Some i \<Rightarrow> i)
      in if startIndex = 0 \<and> length ts > 0 then
           (if hd ts < currentHour then
              (case firstIndexWhere (\<lambda>t. t > now) ts of
                 None \<Rightarrow> startIndex | Some i \<Rightarrow> i)
            else startIndex)
         else startIndex)"

text \<open>The body of the emitting loop (lines 1602-1659) at row \<open>dataIndex\<close>.\<close>

definition hourlyRow ::
  "(real \<Rightarrow> string) \<Rightarrow> int \<Rightarrow> Frame \<Rightarrow> int list \<Rightarrow> string list \<Rightarrow> nat \<Rightarrow> ProcessedHourlyForecast" where
  "hourlyRow numToString now data ts allowedFields dataIndex =
     \<lparr>hf_timestamp = ts ! dataIndex,
      hf_relativeHour = round (real_of_int (ts ! dataIndex - now) / (1000 * 60 * 60)),
      hf_fields = extractFields numToString data dataIndex allowedFields\<rparr>"

text \<open>
  \<open>count\<close> is \<open>Math.min(data.time.length - startIndex, maxHours)\<close>; a loop
  \<open>for (i = 0; i < count; i++)\<close> runs \<open>nat count\<close> ts, not at all when
  \<open>count \<le> 0\<close>. Every \<open>dataIndex\<close> it reads is below the length of the time array.
\<close>

definition processHourlyForecastForPackage ::
  "(real \<Rightarrow> string) \<Rightarrow> int \<Rightarrow> int \<Rightarrow> Frame \<Rightarrow> int \<Rightarrow> string \<Rightarrow> ProcessedHourlyForecast list" where
  "processHourlyForecastForPackage numToString tz now data maxHours packageType =
     (case time data of
        None \<Rightarrow> []
      | Some ts \<Rightarrow>
          (let allowedFields = getHourlyPackageFields packageType;
               startIndex = startIndexOf tz now ts;
               count = min (int (length ts) - int startIndex) maxHours
           in map (\<lambda>i. hourlyRow numToString now data ts allowedFields (startIndex + i))
                [0 ..< nat count]))"

definition daysOfWeek :: "string list" where
  "daysOfWeek =
     [''Sunday'', ''Monday'', ''Tuesday'', ''Wednesday'', ''Thursday'', ''Friday'', ''Saturday'']"

definition dailyRow ::
  "(real \<Rightarrow> string) \<Rightarrow> int \<Rightarrow> Frame \<Rightarrow> int list \<Rightarrow> string list \<Rightarrow> nat \<Rightarrow> ProcessedDailyForecast" where
  "dailyRow numToString tz data ts allowedFields i =
     \<lparr>df_date = ts ! i,
      df_dayOfWeek = daysOfWeek ! nat (getDay tz (ts ! i)),
      df_fields = extractFields numToString data i allowedFields\<rparr>"

definition processDailyForecastForPackage ::
  "(real \<Rightarrow> string) \<Rightarrow> int \<Rightarrow> Frame \<Rightarrow> int \<Rightarrow> string \<Rightarrow> ProcessedDailyForecast list" where
  "processDailyForecastForPackage numToString tz data maxDays packageType =
     (case time data of
        None \<Rightarrow> []
      | Some ts \<Rightarrow>
          (let count = min (int (length ts)) maxDays;
               allowedFields = getDailyPackageFields packageType
           in map (dailyRow numToString tz data ts allowedFields) [0 ..< nat count]))"

section \<open>Geodesic predictor (lines 341-391)\<close>

text \<open>
  Modelled from ECMAScript's \<open>Math.atan2(y, x)\<close> on the reals (one zero, no sign of
  zero): the angle of the point \<open>(x, y)\<close> in \<open>(-\<pi>, \<pi>]\<close>, and 0 at the origin.
  \<open>Math.asin\<close>, \<open>Math.sin\<close>, \<open>Math.cos\<close> and \<open>Math.sqrt\<close> are HOL's \<open>arcsin\<close>,
  \<open>sin\<close>, \<open>cos\<close> and \<open>sqrt\<close>.
\<close>

definition atan2 :: "real \<Rightarrow> real \<Rightarrow> real" where
  "atan2 y x =
     (if x > 0 then arctan (y / x)
      else if x < 0 then (if y \<ge> 0 then arctan (y / x) + pi else arctan (y / x) - pi)
      else if y > 0 then pi / 2
      else if y < 0 then - (pi / 2)
      else 0)"

record Position =
  latitude :: real
  longitude :: real
  timestamp :: int

definition calculateFuturePosition :: "Position \<Rightarrow> real \<Rightarrow> real \<Rightarrow> int \<Rightarrow> Position" where
  "calculateFuturePosition currentPos headingRad sogMps hoursAhead =
     (let distanceMeters = sogMps * real_of_int hoursAhead * 3600;
          earthRadius = 6371000;
          lat1 = degToRad (latitude currentPos);
          lon1 = degToRad (longitude currentPos);
          lat2 = arcsin (sin lat1 * cos (distanceMeters / earthRadius) +
                         cos lat1 * sin (distanceMeters / earthRadius) * cos headingRad);
          lon2 = lon1 + atan2 (sin headingRad * sin (distanceMeters / earthRadius) * cos lat1)
                               (cos (distanceMeters / earthRadius) - sin lat1 * sin lat2)
      in \<lparr>latitude = lat2 * (180 / pi),
          longitude = lon2 * (180 / pi),
          timestamp = timestamp currentPos + hoursAhead * 3600000\<rparr>)"

definition isVesselMoving :: "real \<Rightarrow> real \<Rightarrow> bool" where
  "isVesselMoving sogMps thresholdKnots = (sogMps > thresholdKnots * 0.514444)"

section \<open>Configuration and session state (types.ts)\<close>

record PluginConfig =
  meteoblueApiKey :: string
  forecastInterval :: real
  altitude :: real
  enablePositionSubscription :: bool
  maxForecastHours :: int
  maxForecastDays :: int
  enableBasic1h :: bool
  enableBasicDay :: bool
  enableWind1h :: bool
  enableWindDay :: bool
  enableSea1h :: bool
  enableSeaDay :: bool
  enableSolar1h :: bool
  enableSolarDay :: bool
  enableTrend1h :: bool
  enableClouds1h :: bool
  enableCloudsDay :: bool
  enableAutoMovingForecast :: bool
  movingSpeedThreshold :: real

text \<open>
  \<open>PluginState\<close> without its timer handles, unsubscribe callbacks and account
  information, which no function modelled here reads or writes.
\<close>

record PluginState =
  currentConfig :: "PluginConfig option"
  currentPosition :: "Position option"
  currentHeading :: "real option"
  currentSOG :: "real option"
  lastForecastUpdate :: int
  lastAccountCheck :: int
  forecastEnabled :: bool
  movingForecastEngaged :: bool

section \<open>Update trigger (lines 1305-1337)\<close>


text \<open>
  \<open>!state.lastForecastUpdate\<close> holds for the number 0, the value the state starts
  with and \<open>stop\<close> resets it to. \<open>now\<close> is \<open>Date.now()\<close>.
\<close>



section \<open>Requests, responses and published deltas\<close>

definition getEnabledPackages :: "PluginConfig \<Rightarrow> string list" where
  "getEnabledPackages config =
     (if enableBasic1h config then [''basic-1h''] else []) @
     (if enableBasicDay config then [''basic-day''] else []) @
     (if enableWind1h config then [''wind-1h''] else []) @
     (if enableWindDay config then [''wind-day''] else []) @
     (if enableSea1h config then [''sea-1h''] else []) @
     (if enableSeaDay config then [''sea-day''] else []) @
     (if enableSolar1h config then [''solar-1h''] else []) @
     (if enableSolarDay config then [''solar-day''] else []) @
     (if enableTrend1h config then [''trend-1h''] else []) @
     (if enableClouds1h config then [''clouds-1h''] else []) @
     (if enableCloudsDay config then [''clouds-day''] else [])"

text \<open>The parts of the request URL that vary; \<open>u_packages\<close> is joined by \<open>_\<close> in the source.\<close>

record Url =
  u_packages :: "string list"
  u_apikey :: string
  u_lat :: real
  u_lon :: real
  u_asl :: real

text \<open>\<open>buildMeteoblueUrl\<close> throws when no package is enabled: \<open>None\<close>.\<close>

definition buildMeteoblueUrl :: "real \<Rightarrow> real \<Rightarrow> PluginConfig \<Rightarrow> Url option" where
  "buildMeteoblueUrl lat lon config =
     (let packages = getEnabledPackages config
      in if length packages = 0 then None
         else Some \<lparr>u_packages = packages, u_apikey = meteoblueApiKey config,
                     u_lat = lat, u_lon = lon, u_asl = altitude config\<rparr>)"

record MeteoblueResponse =
  data_1h :: "Frame option"
  data_day :: "Frame option"

text \<open>
  What \<open>await fetch(url)\<close> followed by \<open>response.json()\<close> can do: the promise
  rejects, the status is not ok, the body does not parse, or a response is read.
\<close>

datatype FetchOutcome = Rejected | HttpStatus nat | JsonError | Response MeteoblueResponse

text \<open>
  The injected capabilities: the clock (one instant for a whole cycle), the zone
  offset, the number printer and the network, which answers the \<open>n\<close>-th request of
  the session.
\<close>

record Env =
  env_now :: int
  env_tz :: int
  env_numToString :: "real \<Rightarrow> string"
  env_fetch :: "nat \<Rightarrow> Url \<Rightarrow> FetchOutcome"

text \<open>
  The messages handed to \<open>app.handleMessage\<close>, without their paths and metadata:
  the provider metadata, one message for each hourly or daily forecast with its
  package and index, and the engagement flag.
\<close>

datatype Delta =
    MetadataDelta
  | HourlyDelta string nat ProcessedHourlyForecast
  | DailyDelta string nat ProcessedDailyForecast
  | EngagedDelta bool

record World =
  requests :: "Url list"
  published :: "Delta list"

definition publishHourlyForecasts :: "ProcessedHourlyForecast list \<Rightarrow> string \<Rightarrow> Delta list" where
  "publishHourlyForecasts forecasts packageType =
     map (\<lambda>(index, forecast). HourlyDelta packageType index forecast)
       (zip [0 ..< length forecasts] forecasts)"

definition publishDailyForecasts :: "ProcessedDailyForecast list \<Rightarrow> string \<Rightarrow> Delta list" where
  "publishDailyForecasts forecasts packageType =
     map (\<lambda>(index, forecast). DailyDelta packageType index forecast)
       (zip [0 ..< length forecasts] forecasts)"

definition hourlyPackagesOf :: "PluginConfig \<Rightarrow> string list" where
  "hourlyPackagesOf config = filter (\<lambda>pkg. str_includes pkg ''-1h'') (getEnabledPackages config)"

definition dailyPackagesOf :: "PluginConfig \<Rightarrow> string list" where
  "dailyPackagesOf config = filter (\<lambda>pkg. str_includes pkg ''-day'') (getEnabledPackages config)"

text \<open>The daily block, the same in both fetch paths (lines 2035-2043 and 2155-2163).\<close>

definition publishDailyPackages :: "Env \<Rightarrow> PluginConfig \<Rightarrow> Frame \<Rightarrow> Delta list" where
  "publishDailyPackages env config dataDay =
     concat (map (\<lambda>packageName.
        (let packageType = str_replace packageName ''-day'' []
         in publishDailyForecasts
              (processDailyForecastForPackage (env_numToString env) (env_tz env) dataDay
                 (maxForecastDays config) packageType)
              packageType))
       (dailyPackagesOf config))"

definition publishHourlyPackages :: "Env \<Rightarrow> PluginConfig \<Rightarrow> Frame \<Rightarrow> Delta list" where
  "publishHourlyPackages env config dataHourly =
     concat (map (\<lambda>packageName.
        (let packageType = str_replace packageName ''-1h'' []
         in publishHourlyForecasts
              (processHourlyForecastForPackage (env_numToString env) (env_tz env) (env_now env)
                 dataHourly (maxForecastHours config) packageType)
              packageType))
       (hourlyPackagesOf config))"

section \<open>Stationary fetch (lines 2060-2183)\<close>

text \<open>
  The state and the world go in and come out. Whatever is thrown inside \<open>try\<close> (a
  missing position, no package enabled, a rejected fetch, a status that is not ok, a
  body that does not parse) reaches the \<open>catch\<close>, which only sets
  \<open>lastForecastUpdate\<close>.
\<close>

definition fetchForecast ::
  "Env \<Rightarrow> Position option \<Rightarrow> PluginConfig \<Rightarrow> PluginState \<times> World \<Rightarrow> PluginState \<times> World" where
  "fetchForecast env position config sw =
     (let st = fst sw; w = snd sw
      in if meteoblueApiKey config = [] then (st, w)
         else
           (case position of
              None \<Rightarrow> (st\<lparr>lastForecastUpdate := env_now env\<rparr>, w)
            | Some pos \<Rightarrow>
                (case buildMeteoblueUrl (latitude pos) (longitude pos) config of
                   None \<Rightarrow> (st\<lparr>lastForecastUpdate := env_now env\<rparr>, w)
                 | Some url \<Rightarrow>
                     (let w1 = w\<lparr>requests := requests w @ [url]\<rparr>
                      in case env_fetch env (length (requests w)) url of
                           Response data \<Rightarrow>
                             (st\<lparr>lastForecastUpdate := env_now env,
                                 currentPosition := Some pos\<rparr>,
                              w1\<lparr>published := published w1 @ [MetadataDelta] @
                                   (case data_1h data of
                                      None \<Rightarrow> []
                                    | Some d \<Rightarrow> publishHourlyPackages env config d) @
                                   (case data_day data of
                                      None \<Rightarrow> []
                                    | Some d \<Rightarrow> publishDailyPackages env config d)\<rparr>)
                         | _ \<Rightarrow> (st\<lparr>lastForecastUpdate := env_now env\<rparr>, w1)))))"

section \<open>Moving-vessel fetch (lines 1884-2058)\<close>

text \<open>The search for the row of the target hour (lines 1972-1985).\<close>

definition sameLocalHour :: "int \<Rightarrow> int \<Rightarrow> int \<Rightarrow> bool" where
  "sameLocalHour tz forecastTime targetTime =
     (getFullYear tz forecastTime = getFullYear tz targetTime \<and>
      getMonth tz forecastTime = getMonth tz targetTime \<and>
      getDate tz forecastTime = getDate tz targetTime \<and>
      getHours tz forecastTime = getHours tz targetTime)"

definition findTargetForecast ::
  "int \<Rightarrow> int \<Rightarrow> ProcessedHourlyForecast list \<Rightarrow> ProcessedHourlyForecast option" where
  "findTargetForecast tz targetTime allForecasts =
     find (\<lambda>forecast. sameLocalHour tz (hf_timestamp forecast) targetTime) allForecasts"

text \<open>
  The body of \<open>enabledHourlyPackages.forEach\<close> (lines 1961-2001) for one package:
  \<open>allHourlyForecasts\<close> is the object of arrays by package type.
\<close>

definition addHourForPackage ::
  "Env \<Rightarrow> Frame \<Rightarrow> int \<Rightarrow> int \<Rightarrow> Position \<Rightarrow> string \<Rightarrow>
   (string \<times> ProcessedHourlyForecast list) list \<Rightarrow> (string \<times> ProcessedHourlyForecast list) list" where
  "addHourForPackage env dataHourly totalHoursNeeded targetTime predictedPos packageName
       allHourlyForecasts =
     (let packageType = str_replace packageName ''-1h'' [];
          allForecasts = processHourlyForecastForPackage (env_numToString env) (env_tz env)
                           (env_now env) dataHourly totalHoursNeeded packageType
      in case findTargetForecast (env_tz env) targetTime allForecasts of
           None \<Rightarrow> allHourlyForecasts
         | Some targetForecast \<Rightarrow>
             (let hourForecast = targetForecast
                    \<lparr>hf_fields :=
                       assignAll [(''predictedLatitude'', Num (latitude predictedPos)),
                                  (''predictedLongitude'', Num (longitude predictedPos)),
                                  (''vesselMoving'', Bool True)]
                         (hf_fields targetForecast)\<rparr>
              in AList.map_entry packageType (\<lambda>fs. fs @ [hourForecast]) allHourlyForecasts))"

text \<open>
  The loop over the hours (lines 1931-2008), as a recursion over the hours still to
  do. \<open>None\<close> is an exception thrown inside the loop; the requests made so far stay
  in the world.
\<close>

fun movingLoop ::
  "Env \<Rightarrow> PluginConfig \<Rightarrow> Position \<Rightarrow> real \<Rightarrow> real \<Rightarrow> nat list \<Rightarrow>
   (string \<times> ProcessedHourlyForecast list) list \<Rightarrow> World \<Rightarrow>
   (string \<times> ProcessedHourlyForecast list) list option \<times> World" where
  "movingLoop env config pos heading sog [] allHourlyForecasts w = (Some allHourlyForecasts, w)"
| "movingLoop env config pos heading sog (hour # hours) allHourlyForecasts w =
     (let predictedPos = calculateFuturePosition pos heading sog (int hour);
          targetTime = currentHourOf (env_tz env) (env_now env) + int hour * 3600000;
          hoursFromMidnight = getHours (env_tz env) targetTime;
          totalHoursNeeded = hoursFromMidnight + 1 + 2
      in case buildMeteoblueUrl (latitude predictedPos) (longitude predictedPos) config of
           None \<Rightarrow> (None, w)
         | Some url \<Rightarrow>
             (let w1 = w\<lparr>requests := requests w @ [url]\<rparr>
              in case env_fetch env (length (requests w)) url of
                   Response data \<Rightarrow>
                     movingLoop env config pos heading sog hours
                       (case data_1h data of
                          None \<Rightarrow> allHourlyForecasts
                        | Some d \<Rightarrow>
                            if time d = None then allHourlyForecasts
                            else fold (addHourForPackage env d totalHoursNeeded targetTime
                                         predictedPos)
                                   (hourlyPackagesOf config) allHourlyForecasts)
                       w1
                 | _ \<Rightarrow> (None, w1)))"

text \<open>Lines 2011-2019: the packages in key order, the empty ones left out.\<close>

definition publishMovingForecasts :: "(string \<times> ProcessedHourlyForecast list) list \<Rightarrow> Delta list" where
  "publishMovingForecasts allHourlyForecasts =
     concat (map (\<lambda>(packageType, forecasts).
                    if length forecasts > 0 then publishHourlyForecasts forecasts packageType
                    else [])
               allHourlyForecasts)"

text \<open>\<open>!x\<close> on a number or \<open>null\<close>: true for \<open>null\<close> and for 0.\<close>

definition falsyNum :: "real option \<Rightarrow> bool" where
  "falsyNum x = (case x of None \<Rightarrow> True | Some v \<Rightarrow> v = 0)"

definition movingGuard :: "PluginState \<Rightarrow> PluginConfig \<Rightarrow> bool" where
  "movingGuard st config =
     (currentPosition st = None \<or> falsyNum (currentHeading st) \<or> falsyNum (currentSOG st) \<or>
      \<not> isVesselMoving (case currentSOG st of None \<Rightarrow> 0 | Some v \<Rightarrow> v)
           (movingSpeedThreshold config) \<or>
      \<not> movingForecastEngaged st)"

definition fetchForecastForMovingVessel ::
  "Env \<Rightarrow> PluginConfig \<Rightarrow> PluginState \<times> World \<Rightarrow> PluginState \<times> World" where
  "fetchForecastForMovingVessel env config sw =
     (let st = fst sw; w = snd sw
      in case (currentPosition st, currentHeading st, currentSOG st) of
           (Some pos, Some heading, Some sog) \<Rightarrow>
             if movingGuard st config then fetchForecast env (currentPosition st) config (st, w)
             else
               (let allHourlyForecasts0 =
                      fold (\<lambda>packageName. AList.update (str_replace packageName ''-1h'' []) [])
                        (hourlyPackagesOf config) []
                in case movingLoop env config pos heading sog
                          [0 ..< nat (maxForecastHours config)] allHourlyForecasts0 w of
                     (None, w1) \<Rightarrow> fetchForecast env (currentPosition st) config (st, w1)
                   | (Some allHourlyForecasts, w1) \<Rightarrow>
                       (let w2 = w1\<lparr>published := published w1 @
                                       publishMovingForecasts allHourlyForecasts\<rparr>
                        in case buildMeteoblueUrl (latitude pos) (longitude pos) config of
                             None \<Rightarrow> fetchForecast env (currentPosition st) config (st, w2)
                           | Some dailyUrl \<Rightarrow>
                               (let w3 = w2\<lparr>requests := requests w2 @ [dailyUrl]\<rparr>;
                                    finished = st\<lparr>lastForecastUpdate := env_now env,
                                                  currentPosition := Some pos\<rparr>
                                in case env_fetch env (length (requests w2)) dailyUrl of
                                     Rejected \<Rightarrow>
                                       fetchForecast env (currentPosition st) config (st, w3)
                                   | JsonError \<Rightarrow>
                                       fetchForecast env (currentPosition st) config (st, w3)
                                   | HttpStatus code \<Rightarrow> (finished, w3)
                                   | Response dailyData \<Rightarrow>
                                       (case data_day dailyData of
                                          None \<Rightarrow> (finished, w3)
                                        | Some d \<Rightarrow>
                                            (finished,
                                             w3\<lparr>published := published w3 @
                                                  publishDailyPackages env config d\<rparr>)))))
         | _ \<Rightarrow> fetchForecast env (currentPosition st) config (st, w))"

section \<open>Engagement command (lines 2533-2581)\<close>

text \<open>A value of type \<open>unknown\<close>, by what \<open>typeof\<close> answers for it.\<close>

datatype unknown =
    UBoolean bool | UNumber real | UString string | UObject | UUndefined

record PutResult =
  pr_state :: string
  pr_statusCode :: "nat option"

text \<open>
  The handler returns its result, calls the callback with the same result when one
  is given (the list of the callback's arguments), and leaves the state and the world.
\<close>

definition engagedPutHandler ::
  "unknown \<Rightarrow> bool \<Rightarrow> PluginState \<times> World \<Rightarrow> PutResult \<times> PutResult list \<times> PluginState \<times> World" where
  "engagedPutHandler v hasCallback sw =
     (let st = fst sw; w = snd sw
      in case v of
           UBoolean b \<Rightarrow>
             (let st1 = st\<lparr>movingForecastEngaged := b\<rparr>;
                  w1 = w\<lparr>published := published w @ [EngagedDelta (movingForecastEngaged st1)]\<rparr>;
                  r = \<lparr>pr_state = ''COMPLETED'', pr_statusCode = None\<rparr>
              in (r, if hasCallback then [r] else [], st1, w1))
         | _ \<Rightarrow>
             (let r = \<lparr>pr_state = ''FAILURE'', pr_statusCode = Some 400\<rparr>
              in (r, if hasCallback then [r] else [], st, w)))"

section \<open>Weather-query adapter (lines 604-797)\<close>

text \<open>
  The stored record \<open>forecastData\<close> is a map from field names to numbers. The result
  is modelled in its five groups \<open>outside\<close>, \<open>wind\<close>, \<open>water\<close>, \<open>sun\<close> and
  \<open>current\<close> and its \<open>type\<close>; the date, the descriptions and the icon are left out.
  A property that is \<open>undefined\<close>, or that the object literal does not have, is
  \<open>None\<close>.
\<close>

record Outside =
  outside_temperature :: "real option"
  outside_maxTemperature :: "real option"
  outside_minTemperature :: "real option"
  outside_pressure :: "real option"
  outside_relativeHumidity :: "real option"
  outside_uvIndex :: "real option"
  outside_cloudCover :: "real option"
  outside_precipitationVolume :: "real option"
  outside_feelsLikeTemperature :: "real option"
  outside_horizontalVisibility :: "real option"
  outside_dewPointTemperature :: "real option"
  outside_precipitationProbability :: "real option"
  outside_pressureTendency :: "string option"
  outside_solarRadiation :: "real option"
  outside_directNormalIrradiance :: "real option"
  outside_diffuseHorizontalIrradiance :: "real option"
  outside_globalHorizontalIrradiance :: "real option"
  outside_extraterrestrialSolarRadiation :: "real option"
  outside_totalCloudCover :: "real option"
  outside_lowCloudCover :: "real option"
  outside_midCloudCover :: "real option"
  outside_highCloudCover :: "real option"
  outside_cloudBaseHeight :: "real option"
  outside_cloudTopHeight :: "real option"

record Wind =
  wind_speedTrue :: "real option"
  wind_directionTrue :: "real option"
  wind_gust :: "real option"
  wind_averageSpeed :: "real option"
  wind_gustDirectionTrue :: "real option"

record Water =
  water_temperature :: "real option"
  water_waveSignificantHeight :: "real option"
  water_wavePeriod :: "real option"
  water_waveDirection :: "real option"
  water_swellHeight :: "real option"
  water_swellPeriod :: "real option"
  water_swellDirection :: "real option"
  water_surfaceCurrentSpeed :: "real option"
  water_surfaceCurrentDirection :: "real option"
  water_salinity :: "real option"
  water_seaState :: "real option"
  water_surfaceWaveHeight :: "real option"
  water_windWaveHeight :: "real option"
  water_windWavePeriod :: "real option"
  water_windWaveDirection :: "real option"
  water_swellPeakPeriod :: "real option"
  water_windWavePeakPeriod :: "real option"
  water_waveSteepness :: "real option"

record Sun =
  sun_sunshineDuration :: "real option"
  sun_isDaylight :: "bool option"

record Current =
  current_drift :: "real option"
  current_set :: "real option"

datatype WeatherForecastType = Daily | Point

record WeatherData =
  wd_type :: string
  wd_outside :: Outside
  wd_wind :: Wind
  wd_water :: Water
  wd_sun :: Sun
  wd_current :: Current

text \<open>
  \<open>a || b\<close> on numbers takes \<open>b\<close> when \<open>a\<close> is \<open>undefined\<close> or 0; \<open>a || 0\<close> is then
  a number. A condition \<open>a && b\<close> holds when both are numbers other than 0.
\<close>

definition num_or :: "real option \<Rightarrow> real option \<Rightarrow> real option" where
  "num_or a b = (case a of None \<Rightarrow> b | Some x \<Rightarrow> if x = 0 then b else Some x)"

definition orZero :: "real option \<Rightarrow> real" where
  "orZero a = (case num_or a (Some 0) of None \<Rightarrow> 0 | Some x \<Rightarrow> x)"

definition currentSpeed :: "(string \<rightharpoonup> real) \<Rightarrow> real" where
  "currentSpeed forecastData =
     sqrt ((orZero (forecastData ''currentvelocity_u''))\<^sup>2 +
           (orZero (forecastData ''currentvelocity_v''))\<^sup>2)"

definition currentDirection :: "(string \<rightharpoonup> real) \<Rightarrow> real option" where
  "currentDirection forecastData =
     (case (forecastData ''currentvelocity_u'', forecastData ''currentvelocity_v'') of
        (Some u, Some v) \<Rightarrow> if u \<noteq> 0 \<and> v \<noteq> 0 then Some (atan2 v u) else None
      | _ \<Rightarrow> None)"

definition pressureTendency :: "(string \<rightharpoonup> real) \<Rightarrow> string option" where
  "pressureTendency forecastData =
     (let trend = num_or (forecastData ''pressure_trend'')
                    (forecastData ''sealevelpressure_trend'')
      in case trend of
           None \<Rightarrow> None
         | Some x \<Rightarrow>
             if x = 0 then None
             else Some (if x > 0 then ''increasing''
                        else if x < 0 then ''decreasing'' else ''steady''))"

definition convertToWeatherAPIObservation :: "(string \<rightharpoonup> real) \<Rightarrow> WeatherData" where
  "convertToWeatherAPIObservation forecastData =
     \<lparr>wd_type = ''observation'',
      wd_outside =
        \<lparr>outside_temperature = forecastData ''temperature'',
         outside_maxTemperature = None,
         outside_minTemperature = None,
         outside_pressure = forecastData ''sealevelpressure'',
         outside_relativeHumidity = forecastData ''relativehumidity'',
         outside_uvIndex = forecastData ''uvindex'',
         outside_cloudCover = forecastData ''cloudcover'',
         outside_precipitationVolume = forecastData ''precipitation'',
         outside_feelsLikeTemperature = forecastData ''felttemperature'',
         outside_horizontalVisibility = forecastData ''visibility'',
         outside_dewPointTemperature =
           num_or (forecastData ''dewpoint'') (forecastData ''dewpointtemperature''),
         outside_precipitationProbability = forecastData ''precipitation_probability'',
         outside_pressureTendency = pressureTendency forecastData,
         outside_solarRadiation = forecastData ''solarradiation'',
         outside_directNormalIrradiance = forecastData ''irradiance_direct_normal'',
         outside_diffuseHorizontalIrradiance = forecastData ''irradiance_diffuse_horizontal'',
         outside_globalHorizontalIrradiance = forecastData ''irradiance_global_horizontal'',
         outside_extraterrestrialSolarRadiation =
           forecastData ''extraterrestrial_solar_radiation'',
         outside_totalCloudCover = forecastData ''total_cloud_cover'',
         outside_lowCloudCover = forecastData ''low_cloud_cover'',
         outside_midCloudCover = forecastData ''mid_cloud_cover'',
         outside_highCloudCover = forecastData ''high_cloud_cover'',
         outside_cloudBaseHeight = forecastData ''cloud_base_height'',
         outside_cloudTopHeight = forecastData ''cloud_top_height''\<rparr>,
      wd_wind =
        \<lparr>wind_speedTrue = forecastData ''windspeed'',
         wind_directionTrue = forecastData ''winddirection'',
         wind_gust = forecastData ''gust'',
         wind_averageSpeed = forecastData ''windspeed'',
         wind_gustDirectionTrue = forecastData ''gustdirection''\<rparr>,
      wd_water =
        \<lparr>water_temperature = forecastData ''seasurfacetemperature'',
         water_waveSignificantHeight = forecastData ''significantwaveheight'',
         water_wavePeriod = forecastData ''mean_waveperiod'',
         water_waveDirection = forecastData ''mean_wavedirection'',
         water_swellHeight = forecastData ''swell_significantheight'',
         water_swellPeriod = forecastData ''swell_meanperiod'',
         water_swellDirection = forecastData ''swell_meandirection'',
         water_surfaceCurrentSpeed = Some (currentSpeed forecastData),
         water_surfaceCurrentDirection = currentDirection forecastData,
         water_salinity = forecastData ''salinity'',
         water_seaState = forecastData ''douglas_seastate'',
         water_surfaceWaveHeight = forecastData ''surfwave_height'',
         water_windWaveHeight = forecastData ''windwave_height'',
         water_windWavePeriod = forecastData ''windwave_meanperiod'',
         water_windWaveDirection = forecastData ''windwave_direction'',
         water_swellPeakPeriod = forecastData ''swell_peakwaveperiod'',
         water_windWavePeakPeriod = forecastData ''windwave_peakwaveperiod'',
         water_waveSteepness = forecastData ''wavesteepness''\<rparr>,
      wd_sun =
        \<lparr>sun_sunshineDuration = forecastData ''sunshine_duration'',
         sun_isDaylight = Some (forecastData ''isdaylight'' = Some 1)\<rparr>,
      wd_current =
        \<lparr>current_drift = Some (currentSpeed forecastData),
         current_set = currentDirection forecastData\<rparr>\<rparr>"

definition convertToWeatherAPIForecast ::
  "(string \<rightharpoonup> real) \<Rightarrow> WeatherForecastType \<Rightarrow> WeatherData" where
  "convertToWeatherAPIForecast forecastData type =
     (case type of
        Daily \<Rightarrow>
          \<lparr>wd_type = ''daily'',
           wd_outside =
             \<lparr>outside_temperature = forecastData ''temperature_mean'',
              outside_maxTemperature = forecastData ''temperature_max'',
              outside_minTemperature = forecastData ''temperature_min'',
              outside_pressure = forecastData ''sealevelpressure_mean'',
              outside_relativeHumidity = forecastData ''relativehumidity_mean'',
              outside_uvIndex = forecastData ''uvindex'',
              outside_cloudCover = forecastData ''cloudcover_mean'',
              outside_precipitationVolume = forecastData ''precipitation'',
              outside_feelsLikeTemperature = forecastData ''felttemperature_mean'',
              outside_horizontalVisibility = forecastData ''visibility_mean'',
              outside_dewPointTemperature = forecastData ''dewpoint_mean'',
              outside_precipitationProbability = forecastData ''precipitation_probability'',
              outside_pressureTendency = None,
              outside_solarRadiation = forecastData ''solarradiation_mean'',
              outside_directNormalIrradiance = forecastData ''irradiance_direct_normal_max'',
              outside_diffuseHorizontalIrradiance =
                forecastData ''irradiance_diffuse_horizontal_max'',
              outside_globalHorizontalIrradiance =
                forecastData ''irradiance_global_horizontal_max'',
              outside_extraterrestrialSolarRadiation = None,
              outside_totalCloudCover = forecastData ''total_cloud_cover_mean'',
              outside_lowCloudCover = forecastData ''low_cloud_cover_mean'',
              outside_midCloudCover = forecastData ''mid_cloud_cover_mean'',
              outside_highCloudCover = forecastData ''high_cloud_cover_mean'',
              outside_cloudBaseHeight = None,
              outside_cloudTopHeight = None\<rparr>,
           wd_wind =
             \<lparr>wind_speedTrue = forecastData ''windspeed_max'',
              wind_directionTrue = forecastData ''winddirection'',
              wind_gust = None,
              wind_averageSpeed = forecastData ''windspeed_mean'',
              wind_gustDirectionTrue = None\<rparr>,
           wd_water =
             \<lparr>water_temperature = forecastData ''seasurfacetemperature_mean'',
              water_waveSignificantHeight = None,
              water_wavePeriod = None,
              water_waveDirection = None,
              water_swellHeight = None,
              water_swellPeriod = None,
              water_swellDirection = None,
              water_surfaceCurrentSpeed = Some (currentSpeed forecastData),
              water_surfaceCurrentDirection = currentDirection forecastData,
              water_salinity = None,
              water_seaState = None,
              water_surfaceWaveHeight = None,
              water_windWaveHeight = None,
              water_windWavePeriod = None,
              water_windWaveDirection = None,
              water_swellPeakPeriod = None,
              water_windWavePeakPeriod = None,
              water_waveSteepness = None\<rparr>,
           wd_sun =
             \<lparr>sun_sunshineDuration = forecastData ''sunshine_duration'',
              sun_isDaylight = None\<rparr>,
           wd_current =
             \<lparr>current_drift = Some (currentSpeed forecastData),
              current_set = currentDirection forecastData\<rparr>\<rparr>
      | Point \<Rightarrow> (convertToWeatherAPIObservation forecastData)\<lparr>wd_type := ''point''\<rparr>)"

section \<open>Example inputs\<close>

definition examplePosition :: Position where
  "examplePosition = \<lparr>latitude = 45, longitude = - 30, timestamp = 1705314600000\<rparr>"

definition exampleState :: PluginState where
  "exampleState =
     \<lparr>currentConfig = None,
      currentPosition = Some \<lparr>latitude = 0, longitude = 0, timestamp = 0\<rparr>,
      currentHeading = None, currentSOG = None,
      lastForecastUpdate = 1000, lastAccountCheck = 0,
      forecastEnabled = True, movingForecastEngaged = False\<rparr>"

text \<open>
  A frame of three hourly rows, 10:00 to 12:00 UTC on 2024-01-15, and the instant
  10:30 of that day.
\<close>

definition exampleNow :: int where
  "exampleNow = 1705314600000"

definition exampleFrame :: Frame where
  "exampleFrame =
     \<lparr>time = Some [1705312800000, 1705316400000, 1705320000000],
      columns =
        [(''temperature'', [Some 10, Some 11, None]),
         (''significantwaveheight'', [Some 2, Some (5 / 2), Some 3]),
         (''douglas_seastate'', [Some 4, Some 4, Some 11])]\<rparr>"

text \<open>
  A frame whose three rows, 07:00 to 09:00 UTC on 2024-01-15, are all before the
  current hour of \<open>exampleNow\<close>.
\<close>

definition staleFrame :: Frame where
  "staleFrame =
     \<lparr>time = Some [1705302000000, 1705305600000, 1705309200000],
      columns = [(''temperature'', [Some 10, Some 11, Some 12])]\<rparr>"

text \<open>
  A series of 30 hourly rows that starts at midnight UTC on 2024-01-15 (row 24 is
  midnight of the next day), and the instant 21:30 of that day.
\<close>

definition nightTimes :: "int list" where
  "nightTimes =
     [1705276800000, 1705280400000, 1705284000000, 1705287600000, 1705291200000,
      1705294800000, 1705298400000, 1705302000000, 1705305600000, 1705309200000,
      1705312800000, 1705316400000, 1705320000000, 1705323600000, 1705327200000,
      1705330800000, 1705334400000, 1705338000000, 1705341600000, 1705345200000,
      1705348800000, 1705352400000, 1705356000000, 1705359600000, 1705363200000,
      1705366800000, 1705370400000, 1705374000000, 1705377600000, 1705381200000]"

definition nightFrame :: Frame where
  "nightFrame =
     \<lparr>time = Some nightTimes, columns = [(''temperature'', replicate 30 (Some 10))]\<rparr>"

definition lateNow :: int where
  "lateNow = 1705354200000"

text \<open>
  A session under way at 5 m/s on heading 1 rad, engaged, with the basic hourly
  package only and four forecast hours; every request is answered with the series
  above.
\<close>

definition movingConfig :: PluginConfig where
  "movingConfig =
     \<lparr>meteoblueApiKey = ''key'', forecastInterval = 120, altitude = 15,
      enablePositionSubscription = True, maxForecastHours = 4, maxForecastDays = 10,
      enableBasic1h = True, enableBasicDay = False, enableWind1h = False,
      enableWindDay = False, enableSea1h = False, enableSeaDay = False,
      enableSolar1h = False, enableSolarDay = False, enableTrend1h = False,
      enableClouds1h = False, enableCloudsDay = False,
      enableAutoMovingForecast = True, movingSpeedThreshold = 1\<rparr>"

definition movingState :: PluginState where
  "movingState =
     \<lparr>currentConfig = Some movingConfig,
      currentPosition = Some examplePosition,
      currentHeading = Some 1, currentSOG = Some 5,
      lastForecastUpdate = 1000, lastAccountCheck = 0,
      forecastEnabled = True, movingForecastEngaged = True\<rparr>"

definition nightEnv :: Env where
  "nightEnv =
     \<lparr>env_now = lateNow, env_tz = 0, env_numToString = (\<lambda>_. []),
      env_fetch = (\<lambda>n url. Response \<lparr>data_1h = Some nightFrame, data_day = None\<rparr>)\<rparr>"

definition emptyWorld :: World where
  "emptyWorld = \<lparr>requests = [], published = []\<rparr>"

section \<open>Notions used to state the properties\<close>

text \<open>The two keys that the sea state branch of the dispatch adds.\<close>

definition derivedKeys :: "string set" where
  "derivedKeys = {''douglas_seastate_description'', ''douglas_seastate_verbose''}"

text \<open>The request a fetch makes for a position, when a package is enabled.\<close>

definition requestAt :: "PluginConfig \<Rightarrow> Position \<Rightarrow> Url" where
  "requestAt config p =
     \<lparr>u_packages = getEnabledPackages config, u_apikey = meteoblueApiKey config,
      u_lat = latitude p, u_lon = longitude p, u_asl = altitude config\<rparr>"

text \<open>A fetch fails when no response body is read.\<close>

definition isFailure :: "FetchOutcome \<Rightarrow> bool" where
  "isFailure outcome = (case outcome of Response data \<Rightarrow> False | _ \<Rightarrow> True)"

text \<open>A published hourly forecast of the moving path carries the key \<open>vesselMoving\<close>.\<close>

definition isMovingDelta :: "Delta \<Rightarrow> bool" where
  "isMovingDelta d =
     (case d of
        HourlyDelta packageType index forecast \<Rightarrow> ''vesselMoving'' \<in> fst ` set (hf_fields forecast)
      | _ \<Rightarrow> False)"

text \<open>The network of \<open>nightEnv\<close>, except that the second request of the session fails.\<close>

definition failingEnv :: Env where
  "failingEnv =
     nightEnv\<lparr>env_fetch := (\<lambda>n url. if n = 1 then HttpStatus 500
                                   else Response \<lparr>data_1h = Some nightFrame, data_day = None\<rparr>)\<rparr>"

section \<open>Properties of the strings and the sea state tables\<close>


lemma int_cases_0_9:
  assumes "0 \<le> (k::int)" "k \<le> 9"
  shows "k \<in> {0, 1, 2, 3, 4, 5, 6, 7, 8, 9}"
  using assms by (simp, arith)

lemma simple_in_range:
  assumes "0 \<le> round x" "round x \<le> 9"
  shows "douglasSeaStateSimple x = snd (simpleDescriptions ! nat (round x))"
    and "douglasSeaStateSimple x \<noteq> ''Unknown''"
  using int_cases_0_9[OF assms]
  by (auto simp: douglasSeaStateSimple_def simpleDescriptions_def str_or_def)

lemma verbose_in_range:
  assumes "0 \<le> round x" "round x \<le> 9"
  shows "douglasSeaStateVerbose fmt x = snd (verboseDescriptions ! nat (round x))"
  using int_cases_0_9[OF assms]
  by (auto simp: douglasSeaStateVerbose_def verboseDescriptions_def str_or_def)

lemma simple_out_of_range:
  assumes "round x < 0 \<or> 9 < round x"
  shows "douglasSeaStateSimple x = ''Unknown''"
  using assms
  by (auto simp: douglasSeaStateSimple_def simpleDescriptions_def str_or_def)

lemma verbose_out_of_range:
  assumes "round x < 0 \<or> 9 < round x"
  shows "douglasSeaStateVerbose fmt x = ''Unknown ('' @ fmt x @ '')''"
  using assms
  by (auto simp: douglasSeaStateVerbose_def verboseDescriptions_def str_or_def)

text \<open>
  Claim C8. Both description functions round their argument to the nearest integer
  first (the terse one depends on nothing else), read the rounded value in their table
  for 0 to 9, where the terse answer is never the fallback, and give their fallback
  for every rounded value outside: \<open>Unknown\<close> for the terse function, \<open>Unknown (\<close>
  the printed argument \<open>)\<close> for the verbose one. In particular the terse description
  of 4 is \<open>Moderate\<close> and that of 11 is \<open>Unknown\<close>.
\<close>

theorem douglas_descriptions:
  "douglasSeaStateSimple x = douglasSeaStateSimple (real_of_int (round x)) \<and>
   (0 \<le> round x \<and> round x \<le> 9 \<longrightarrow>
      douglasSeaStateSimple x = snd (simpleDescriptions ! nat (round x)) \<and>
      douglasSeaStateSimple x \<noteq> ''Unknown'' \<and>
      douglasSeaStateVerbose fmt x = snd (verboseDescriptions ! nat (round x))) \<and>
   (round x < 0 \<or> 9 < round x \<longrightarrow>
      douglasSeaStateSimple x = ''Unknown'' \<and>
      douglasSeaStateVerbose fmt x = ''Unknown ('' @ fmt x @ '')'') \<and>
   douglasSeaStateSimple 4 = ''Moderate'' \<and>
   douglasSeaStateSimple 11 = ''Unknown''"
proof -
  have a: "douglasSeaStateSimple x = douglasSeaStateSimple (real_of_int (round x))"
    by (simp add: douglasSeaStateSimple_def)
  have c: "douglasSeaStateSimple 4 = ''Moderate''"
    by (simp add: douglasSeaStateSimple_def simpleDescriptions_def str_or_def)
  have d: "douglasSeaStateSimple 11 = ''Unknown''"
    by (simp add: douglasSeaStateSimple_def simpleDescriptions_def str_or_def)
  show ?thesis
    using a c d simple_in_range[of x] verbose_in_range[of x fmt]
      simple_out_of_range[of x] verbose_out_of_range[of x fmt]
    by blast
qed

text \<open>
  The theorem at 3.5, which rounds up to 4, and at -1, which is out of range.
\<close>

theorem douglas_descriptions_witness:
  "douglasSeaStateSimple (7 / 2) = ''Moderate'' \<and>
   douglasSeaStateVerbose (\<lambda>_. ''3.5'') (7 / 2) =
     ''Moderate (1.25-2.5m) - Small waves becoming longer, numerous whitecaps'' \<and>
   douglasSeaStateSimple (-1) = ''Unknown'' \<and>
   douglasSeaStateVerbose (\<lambda>_. ''-1'') (-1) = ''Unknown (-1)''"
proof -
  have r1: "round (7 / 2 :: real) = 4" by (simp add: round_def)
  have r2: "round (-1 :: real) = -1" by (simp add: round_def)
  have "0 \<le> round (7 / 2 :: real) \<and> round (7 / 2 :: real) \<le> 9" by (simp add: r1)
  with douglas_descriptions[of "7 / 2" "\<lambda>_. ''3.5''"]
  have a: "douglasSeaStateSimple (7 / 2) = snd (simpleDescriptions ! nat (round (7 / 2 :: real)))"
    and b: "douglasSeaStateVerbose (\<lambda>_. ''3.5'') (7 / 2) =
            snd (verboseDescriptions ! nat (round (7 / 2 :: real)))"
    by blast+
  have "round (-1 :: real) < 0 \<or> 9 < round (-1 :: real)" by (simp add: r2)
  with douglas_descriptions[of "-1" "\<lambda>_. ''-1''"]
  have c: "douglasSeaStateSimple (-1) = ''Unknown''"
    and d0: "douglasSeaStateVerbose (\<lambda>_. ''-1'') (-1) = ''Unknown ('' @ ''-1'' @ '')''"
    by blast+
  have d: "douglasSeaStateVerbose (\<lambda>_. ''-1'') (-1) = ''Unknown (-1)''"
    using d0 by simp
  show ?thesis
    using a b c d by (simp add: r1 simpleDescriptions_def verboseDescriptions_def)
qed

section \<open>The dispatch against the specification's ordered rules\<close>





text \<open>
  On the names in the package lists the two wordings of the last rule give the same
  dispatch: the only listed name with \<open>probability\<close> in it is
  \<open>precipitation_probability\<close> itself.
\<close>

lemma probability_rules_agree:
  assumes "suffix ''probability'' f \<longleftrightarrow> sublist ''precipitation_probability'' f"
  shows "specDispatch (suffix ''probability'') fmt f v =
         specDispatch (\<lambda>f. sublist ''precipitation_probability'' f) fmt f v"
  using assms by (simp add: specDispatch_def specRules_def)

lemma listed_hourly_probability:
  "\<forall>f \<in> set (concat (map snd hourlyFieldMappings)).
     suffix ''probability'' f \<longleftrightarrow> sublist ''precipitation_probability'' f"
  by (simp add: hourlyFieldMappings_def sublist_Cons_right suffix_def)

lemma listed_daily_probability:
  "\<forall>f \<in> set (concat (map snd dailyFieldMappings)).
     suffix ''probability'' f \<longleftrightarrow> sublist ''precipitation_probability'' f"
  by (simp add: dailyFieldMappings_def sublist_Cons_right suffix_def)

lemma listed_fields_agree:
  assumes "f \<in> set (concat (map snd hourlyFieldMappings)) \<union>
               set (concat (map snd dailyFieldMappings))"
  shows "specDispatch (suffix ''probability'') fmt f v =
         specDispatch (\<lambda>f. sublist ''precipitation_probability'' f) fmt f v"
  using assms listed_hourly_probability listed_daily_probability
  by (intro probability_rules_agree) blast

section \<open>The engagement command\<close>

text \<open>
  Claim C9. A boolean value sets \<open>movingForecastEngaged\<close> to that value, publishes
  it and acknowledges with \<open>COMPLETED\<close>; any other value is answered with
  \<open>FAILURE\<close> and status code 400, and the state and the world stay as they were.
  The callback, when given, receives the same result.
\<close>

theorem engaged_put_handler:
  "engagedPutHandler (UBoolean b) cb (st, w) =
     (\<lparr>pr_state = ''COMPLETED'', pr_statusCode = None\<rparr>,
      (if cb then [\<lparr>pr_state = ''COMPLETED'', pr_statusCode = None\<rparr>] else []),
      st\<lparr>movingForecastEngaged := b\<rparr>,
      w\<lparr>published := published w @ [EngagedDelta b]\<rparr>) \<and>
   ((\<forall>b. v \<noteq> UBoolean b) \<longrightarrow>
      engagedPutHandler v cb (st, w) =
        (\<lparr>pr_state = ''FAILURE'', pr_statusCode = Some 400\<rparr>,
         (if cb then [\<lparr>pr_state = ''FAILURE'', pr_statusCode = Some 400\<rparr>] else []),
         st, w))"
  by (cases v) (simp_all add: engagedPutHandler_def Let_def)

text \<open>The theorem at the string \<open>yes\<close>, sent with a callback.\<close>

theorem engaged_put_handler_witness:
  "engagedPutHandler (UString ''yes'') True (exampleState, \<lparr>requests = [], published = []\<rparr>) =
     (\<lparr>pr_state = ''FAILURE'', pr_statusCode = Some 400\<rparr>,
      [\<lparr>pr_state = ''FAILURE'', pr_statusCode = Some 400\<rparr>],
      exampleState, \<lparr>requests = [], published = []\<rparr>)"
  using engaged_put_handler[where v = "UString ''yes''" and cb = True and st = exampleState
      and w = "\<lparr>requests = [], published = []\<rparr>"]
  by simp

section \<open>The geodesic predictor at hour 0\<close>




text \<open>Outside that range the latitude is folded back: 180 degrees comes out as 0.\<close>

lemma zero_hours_latitude_outside_range:
  "latitude (calculateFuturePosition \<lparr>latitude = 180, longitude = 0, timestamp = 0\<rparr> h s 0) = 0"
  by (simp add: calculateFuturePosition_def Let_def degToRad_def)

section \<open>The update trigger\<close>





section \<open>Package ownership of the emitted fields\<close>

lemma currentHour_example: "currentHourOf 0 exampleNow = 1705312800000"
  by code_simp

lemma keys_assignAll: "fst ` set (assignAll kvs obj) = fst ` set obj \<union> fst ` set kvs"
proof (induction kvs arbitrary: obj)
  case Nil
  show ?case by (simp add: assignAll_def)
next
  case (Cons kv kvs)
  have "assignAll (kv # kvs) obj = assignAll kvs (AList.update (fst kv) (snd kv) obj)"
    by (simp add: assignAll_def split_beta)
  then have "fst ` set (assignAll (kv # kvs) obj) =
             fst ` set (AList.update (fst kv) (snd kv) obj) \<union> fst ` set kvs"
    using Cons.IH[of "AList.update (fst kv) (snd kv) obj"] by simp
  also have "\<dots> = ({fst kv} \<union> fst ` set obj) \<union> fst ` set kvs"
    by (simp only: dom_update)
  finally show ?case by (simp add: Un_ac)
qed

lemma map_of_assignAll_other:
  "k \<notin> fst ` set kvs \<Longrightarrow> map_of (assignAll kvs obj) k = map_of obj k"
  unfolding assignAll_def
  by (induction kvs arbitrary: obj) (auto simp: update_conv')

lemma keys_applyUnitConversion:
  "fst ` set (applyUnitConversion fmt f v) =
     (if f = ''douglas_seastate'' then insert f derivedKeys else {f})"
  by (auto simp: applyUnitConversion_def derivedKeys_def)

lemma keys_extractField:
  "fst ` set (extractField fmt data i f obj) \<subseteq>
     fst ` set obj \<union> {f} \<union> (if f = ''douglas_seastate'' then derivedKeys else {})"
  by (auto simp: extractField_def keys_assignAll keys_applyUnitConversion split: option.splits if_splits)

lemma keys_fold_extractField:
  "fst ` set (fold (extractField fmt data i) fs obj) \<subseteq>
     fst ` set obj \<union> set fs \<union> (if ''douglas_seastate'' \<in> set fs then derivedKeys else {})"
proof (induction fs arbitrary: obj)
  case Nil
  then show ?case by simp
next
  case (Cons f fs)
  let ?A = "fst ` set (fold (extractField fmt data i) fs (extractField fmt data i f obj))"
  let ?B = "fst ` set (extractField fmt data i f obj)"
  have 1: "?A \<subseteq> ?B \<union> set fs \<union> (if ''douglas_seastate'' \<in> set fs then derivedKeys else {})"
    by (rule Cons.IH)
  have 2: "?B \<subseteq> fst ` set obj \<union> {f} \<union> (if f = ''douglas_seastate'' then derivedKeys else {})"
    by (rule keys_extractField)
  have "?A \<subseteq> fst ` set obj \<union> set (f # fs) \<union>
          (if ''douglas_seastate'' \<in> set (f # fs) then derivedKeys else {})"
  proof
    fix k assume "k \<in> ?A"
    with 1 have "k \<in> ?B \<or> k \<in> set fs \<or> (''douglas_seastate'' \<in> set fs \<and> k \<in> derivedKeys)"
      by (auto split: if_splits)
    moreover have "k \<in> ?B \<Longrightarrow> k \<in> fst ` set obj \<or> k = f \<or> (f = ''douglas_seastate'' \<and> k \<in> derivedKeys)"
      using 2 by (auto split: if_splits)
    ultimately show "k \<in> fst ` set obj \<union> set (f # fs) \<union>
          (if ''douglas_seastate'' \<in> set (f # fs) then derivedKeys else {})"
      by (cases "''douglas_seastate'' \<in> set (f # fs)") auto
  qed
  then show ?case by simp
qed

lemma keys_extractFields:
  "fst ` set (extractFields fmt data i fs) \<subseteq>
     set fs \<union> (if ''douglas_seastate'' \<in> set fs then derivedKeys else {})"
  using keys_fold_extractField[of fmt data i fs "[]"] by (simp add: extractFields_def)

lemma hourly_listed_in_table:
  "f \<in> set (getHourlyPackageFields pkg) \<Longrightarrow>
     \<exists>fs. (pkg, fs) \<in> set hourlyFieldMappings \<and> f \<in> set fs"
proof (cases "map_of hourlyFieldMappings pkg")
  case None
  assume "f \<in> set (getHourlyPackageFields pkg)"
  with None show ?thesis by (simp add: getHourlyPackageFields_def)
next
  case (Some fs)
  assume "f \<in> set (getHourlyPackageFields pkg)"
  with Some have "f \<in> set fs" by (simp add: getHourlyPackageFields_def)
  with map_of_SomeD[OF Some] show ?thesis by blast
qed

lemma daily_listed_in_table:
  "f \<in> set (getDailyPackageFields pkg) \<Longrightarrow>
     \<exists>fs. (pkg, fs) \<in> set dailyFieldMappings \<and> f \<in> set fs"
proof (cases "map_of dailyFieldMappings pkg")
  case None
  assume "f \<in> set (getDailyPackageFields pkg)"
  with None show ?thesis by (simp add: getDailyPackageFields_def)
next
  case (Some fs)
  assume "f \<in> set (getDailyPackageFields pkg)"
  with Some have "f \<in> set fs" by (simp add: getDailyPackageFields_def)
  with map_of_SomeD[OF Some] show ?thesis by blast
qed

lemma hourly_table_seastate:
  "\<forall>(p, fs) \<in> set hourlyFieldMappings. ''douglas_seastate'' \<in> set fs \<longrightarrow> p = ''sea''"
  by (simp add: hourlyFieldMappings_def)

lemma daily_table_seastate:
  "\<forall>(p, fs) \<in> set dailyFieldMappings. ''douglas_seastate'' \<notin> set fs"
  by (simp add: dailyFieldMappings_def)

lemma hourly_table_derived:
  "\<forall>(p, fs) \<in> set hourlyFieldMappings.
     ''douglas_seastate_description'' \<notin> set fs \<and> ''douglas_seastate_verbose'' \<notin> set fs \<and>
     ''vesselMoving'' \<notin> set fs"
  by (simp add: hourlyFieldMappings_def)

lemma seastate_only_in_sea:
  "''douglas_seastate'' \<in> set (getHourlyPackageFields pkg) \<Longrightarrow> pkg = ''sea''"
  using hourly_listed_in_table[of "''douglas_seastate''" pkg] hourly_table_seastate by blast

lemma seastate_not_daily: "''douglas_seastate'' \<notin> set (getDailyPackageFields pkg)"
  using daily_listed_in_table[of "''douglas_seastate''" pkg] daily_table_seastate by blast

lemma derived_not_listed:
  "k \<in> derivedKeys \<Longrightarrow> k \<notin> set (getHourlyPackageFields pkg)"
  using hourly_listed_in_table[of k pkg] hourly_table_derived
  by (auto simp: derivedKeys_def)

lemma vesselMoving_not_listed: "''vesselMoving'' \<notin> set (getHourlyPackageFields pkg)"
  using hourly_listed_in_table[of "''vesselMoving''" pkg] hourly_table_derived by blast

lemma basic_no_wave: "''significantwaveheight'' \<notin> set (getHourlyPackageFields ''basic'')"
  by (simp add: getHourlyPackageFields_def hourlyFieldMappings_def)

lemma sea_no_temperature: "''temperature'' \<notin> set (getHourlyPackageFields ''sea'')"
  by (simp add: getHourlyPackageFields_def hourlyFieldMappings_def)


lemma hourly_keys:
  assumes "r \<in> set (processHourlyForecastForPackage fmt tz now data maxHours pkg)"
  shows "fst ` set (hf_fields r) \<subseteq>
           set (getHourlyPackageFields pkg) \<union> (if pkg = ''sea'' then derivedKeys else {})"
proof -
  obtain i where "hf_fields r = extractFields fmt data i (getHourlyPackageFields pkg)"
    using assms
    by (auto simp: processHourlyForecastForPackage_def Let_def hourlyRow_def split: option.splits)
  then show ?thesis
    using keys_extractFields[of fmt data i "getHourlyPackageFields pkg"] seastate_only_in_sea[of pkg]
    by (auto split: if_splits)
qed

lemma daily_keys:
  assumes "r \<in> set (processDailyForecastForPackage fmt tz data maxDays pkg)"
  shows "fst ` set (df_fields r) \<subseteq> set (getDailyPackageFields pkg)"
proof -
  obtain i where "df_fields r = extractFields fmt data i (getDailyPackageFields pkg)"
    using assms
    by (auto simp: processDailyForecastForPackage_def Let_def dailyRow_def split: option.splits)
  then show ?thesis
    using keys_extractFields[of fmt data i "getDailyPackageFields pkg"] seastate_not_daily[of pkg]
    by (auto split: if_splits)
qed

lemma map_of_extractField_other:
  assumes "k \<noteq> f" "k \<notin> derivedKeys"
  shows "map_of (extractField fmt data i f obj) k = map_of obj k"
proof (cases "cell data f i")
  case None
  then show ?thesis by (simp add: extractField_def)
next
  case (Some v)
  have "k \<notin> fst ` set (applyUnitConversion fmt f v)"
    using assms by (auto simp: keys_applyUnitConversion split: if_splits)
  then show ?thesis using Some by (simp add: extractField_def map_of_assignAll_other)
qed

lemma map_of_fold_extractField_other:
  assumes "k \<notin> set fs" "k \<notin> derivedKeys"
  shows "map_of (fold (extractField fmt data i) fs obj) k = map_of obj k"
  using assms
  by (induction fs arbitrary: obj) (auto simp: map_of_extractField_other)

lemma sea_wave_height:
  "map_of (extractFields fmt data i (getHourlyPackageFields ''sea'')) ''significantwaveheight'' =
     map_option Num (cell data ''significantwaveheight'' i)"
proof -
  let ?rest = "drop 2 (getHourlyPackageFields ''sea'')"
  have split: "getHourlyPackageFields ''sea'' =
      [''seasurfacetemperature'', ''significantwaveheight''] @ ?rest"
    by (simp add: getHourlyPackageFields_def hourlyFieldMappings_def)
  have notin: "''significantwaveheight'' \<notin> set ?rest"
    by (simp add: getHourlyPackageFields_def hourlyFieldMappings_def)
  have nd: "''significantwaveheight'' \<notin> derivedKeys"
    by (simp add: derivedKeys_def)
  have conv: "\<And>v. applyUnitConversion fmt ''significantwaveheight'' v = [(''significantwaveheight'', Num v)]"
    by (simp add: applyUnitConversion_def)
  have first: "map_of (extractField fmt data i ''seasurfacetemperature'' []) ''significantwaveheight'' = None"
    using map_of_extractField_other[of "''significantwaveheight''" "''seasurfacetemperature''" fmt data i "[]"] nd
    by simp
  have second: "map_of (extractField fmt data i ''significantwaveheight''
                  (extractField fmt data i ''seasurfacetemperature'' [])) ''significantwaveheight'' =
                map_option Num (cell data ''significantwaveheight'' i)"
    using first
    by (cases "cell data ''significantwaveheight'' i")
       (simp_all add: extractField_def[of fmt data i "''significantwaveheight''"] conv assignAll_def update_conv')
  show ?thesis
    unfolding extractFields_def
    by (subst split) (simp add: map_of_fold_extractField_other[OF notin nd] second del: append.simps)
qed


lemma hourly_row_index:
  assumes "time data = Some ts"
    and "i < length (processHourlyForecastForPackage fmt tz now data maxHours pkg)"
  shows "processHourlyForecastForPackage fmt tz now data maxHours pkg ! i =
           hourlyRow fmt now data ts (getHourlyPackageFields pkg) (startIndexOf tz now ts + i)"
  using assms by (simp add: processHourlyForecastForPackage_def Let_def)

text \<open>
  Claim C6, amended. Next to its timestamp and relative hour (date and day of week),
  a record of the hourly processor carries only keys of the package's hourly list,
  and for the package \<open>sea\<close>, the only one that owns \<open>douglas_seastate\<close>,
  possibly the two derived keys \<open>douglas_seastate_description\<close> and
  \<open>douglas_seastate_verbose\<close>; a record of the daily processor carries only keys
  of the package's daily list. So a raw field that the list does not name is never
  copied, whatever the frame holds. In particular no record for \<open>basic\<close> has
  \<open>significantwaveheight\<close>, no record for \<open>sea\<close> has \<open>temperature\<close>, and
  a record for \<open>sea\<close> has \<open>significantwaveheight\<close> exactly when the frame has a
  value for it in that row, and then that value.
\<close>

theorem package_fields_only:
  "(\<forall>r \<in> set (processHourlyForecastForPackage fmt tz now data maxHours pkg).
      fst ` set (hf_fields r) \<subseteq>
        set (getHourlyPackageFields pkg) \<union> (if pkg = ''sea'' then derivedKeys else {})) \<and>
   (\<forall>r \<in> set (processDailyForecastForPackage fmt tz data maxDays pkg).
      fst ` set (df_fields r) \<subseteq> set (getDailyPackageFields pkg)) \<and>
   (\<forall>r \<in> set (processHourlyForecastForPackage fmt tz now data maxHours ''basic'').
      ''significantwaveheight'' \<notin> fst ` set (hf_fields r)) \<and>
   (\<forall>r \<in> set (processHourlyForecastForPackage fmt tz now data maxHours ''sea'').
      ''temperature'' \<notin> fst ` set (hf_fields r)) \<and>
   (\<forall>ts. time data = Some ts \<longrightarrow>
      (\<forall>i < length (processHourlyForecastForPackage fmt tz now data maxHours ''sea'').
         map_of (hf_fields (processHourlyForecastForPackage fmt tz now data maxHours ''sea'' ! i))
           ''significantwaveheight'' =
         map_option Num (cell data ''significantwaveheight'' (startIndexOf tz now ts + i))))"
proof -
  have a: "\<forall>r \<in> set (processHourlyForecastForPackage fmt tz now data maxHours pkg).
      fst ` set (hf_fields r) \<subseteq>
        set (getHourlyPackageFields pkg) \<union> (if pkg = ''sea'' then derivedKeys else {})"
    using hourly_keys by blast
  have b: "\<forall>r \<in> set (processDailyForecastForPackage fmt tz data maxDays pkg).
      fst ` set (df_fields r) \<subseteq> set (getDailyPackageFields pkg)"
    using daily_keys by blast
  have c: "\<forall>r \<in> set (processHourlyForecastForPackage fmt tz now data maxHours ''basic'').
      ''significantwaveheight'' \<notin> fst ` set (hf_fields r)"
  proof
    fix r assume "r \<in> set (processHourlyForecastForPackage fmt tz now data maxHours ''basic'')"
    from hourly_keys[OF this] basic_no_wave
    show "''significantwaveheight'' \<notin> fst ` set (hf_fields r)" by auto
  qed
  have d: "\<forall>r \<in> set (processHourlyForecastForPackage fmt tz now data maxHours ''sea'').
      ''temperature'' \<notin> fst ` set (hf_fields r)"
  proof
    fix r assume "r \<in> set (processHourlyForecastForPackage fmt tz now data maxHours ''sea'')"
    from hourly_keys[OF this] sea_no_temperature
    show "''temperature'' \<notin> fst ` set (hf_fields r)" by (auto simp: derivedKeys_def)
  qed
  have e: "\<forall>ts. time data = Some ts \<longrightarrow>
      (\<forall>i < length (processHourlyForecastForPackage fmt tz now data maxHours ''sea'').
         map_of (hf_fields (processHourlyForecastForPackage fmt tz now data maxHours ''sea'' ! i))
           ''significantwaveheight'' =
         map_option Num (cell data ''significantwaveheight'' (startIndexOf tz now ts + i)))"
    by (simp add: hourly_row_index hourlyRow_def sea_wave_height)
  show ?thesis using a b c d e by blast
qed

lemma startIndex_example:
  "startIndexOf 0 exampleNow [1705312800000, 1705316400000, 1705320000000] = 0"
  by code_simp

lemma example_sea:
  "processHourlyForecastForPackage (\<lambda>_. ''11'') 0 exampleNow exampleFrame 1 ''sea'' =
     [\<lparr>hf_timestamp = 1705312800000, hf_relativeHour = 0,
       hf_fields = [(''significantwaveheight'', Num 2), (''douglas_seastate'', Num 4),
                    (''douglas_seastate_description'', Str ''Moderate''),
                    (''douglas_seastate_verbose'',
                     Str ''Moderate (1.25-2.5m) - Small waves becoming longer, numerous whitecaps'')]\<rparr>]"
  unfolding processHourlyForecastForPackage_def exampleFrame_def
  by (simp add: startIndex_example[unfolded exampleNow_def] Let_def
      hourlyRow_def extractFields_def extractField_def cell_def getHourlyPackageFields_def
      hourlyFieldMappings_def applyUnitConversion_def assignAll_def exampleNow_def round_def
      douglasSeaStateSimple_def douglasSeaStateVerbose_def simpleDescriptions_def
      verboseDescriptions_def str_or_def)


lemma length_processHourly:
  assumes "time data = Some ts"
  shows "length (processHourlyForecastForPackage fmt tz now data maxHours pkg) =
           nat (min (int (length ts) - int (startIndexOf tz now ts)) maxHours)"
  using assms by (simp add: processHourlyForecastForPackage_def Let_def)

lemma length_processDaily:
  assumes "time data = Some ts"
  shows "length (processDailyForecastForPackage fmt tz data maxDays pkg) =
           nat (min (int (length ts)) maxDays)"
  using assms by (simp add: processDailyForecastForPackage_def Let_def)

text \<open>
  The claim as worded (only fields of the owned list) fails for the package
  \<open>sea\<close>: the record made from the first row of the example frame carries
  \<open>douglas_seastate_description\<close>, which the list of \<open>sea\<close> does not name.
\<close>

theorem package_fields_counterexample:
  "processHourlyForecastForPackage (\<lambda>_. ''11'') 0 exampleNow exampleFrame 1 ''sea'' =
     [\<lparr>hf_timestamp = 1705312800000, hf_relativeHour = 0,
       hf_fields = [(''significantwaveheight'', Num 2), (''douglas_seastate'', Num 4),
                    (''douglas_seastate_description'', Str ''Moderate''),
                    (''douglas_seastate_verbose'',
                     Str ''Moderate (1.25-2.5m) - Small waves becoming longer, numerous whitecaps'')]\<rparr>] \<and>
   ''douglas_seastate_description'' \<notin> set (getHourlyPackageFields ''sea'')"
  using example_sea derived_not_listed[of "''douglas_seastate_description''" "''sea''"]
  by (simp add: derivedKeys_def)

text \<open>The theorem on the example frame, one row asked for.\<close>

theorem package_fields_only_witness:
  "length (processHourlyForecastForPackage (\<lambda>_. ''11'') 0 exampleNow exampleFrame 1 ''basic'') = 1 \<and>
   fst ` set (hf_fields
      (processHourlyForecastForPackage (\<lambda>_. ''11'') 0 exampleNow exampleFrame 1 ''basic'' ! 0))
     \<subseteq> set (getHourlyPackageFields ''basic'') \<and>
   ''significantwaveheight'' \<notin> fst ` set (hf_fields
      (processHourlyForecastForPackage (\<lambda>_. ''11'') 0 exampleNow exampleFrame 1 ''basic'' ! 0)) \<and>
   length (processHourlyForecastForPackage (\<lambda>_. ''11'') 0 exampleNow exampleFrame 1 ''sea'') = 1 \<and>
   ''temperature'' \<notin> fst ` set (hf_fields
      (processHourlyForecastForPackage (\<lambda>_. ''11'') 0 exampleNow exampleFrame 1 ''sea'' ! 0)) \<and>
   map_of (hf_fields
      (processHourlyForecastForPackage (\<lambda>_. ''11'') 0 exampleNow exampleFrame 1 ''sea'' ! 0))
     ''significantwaveheight'' = Some (Num 2) \<and>
   length (processDailyForecastForPackage (\<lambda>_. ''11'') 0 exampleFrame 1 ''basic'') = 1 \<and>
   fst ` set (df_fields (processDailyForecastForPackage (\<lambda>_. ''11'') 0 exampleFrame 1 ''basic'' ! 0))
     \<subseteq> set (getDailyPackageFields ''basic'')"
proof -
  let ?h = "processHourlyForecastForPackage (\<lambda>_. ''11'') 0 exampleNow exampleFrame 1"
  let ?d = "processDailyForecastForPackage (\<lambda>_. ''11'') 0 exampleFrame 1 ''basic''"
  let ?ts = "[1705312800000, 1705316400000, 1705320000000] :: int list"
  have t: "time exampleFrame = Some ?ts" by (simp add: exampleFrame_def)
  have lh: "length (?h pkg) = 1" for pkg
    by (simp add: length_processHourly[OF t] startIndex_example)
  have ld: "length ?d = 1"
    by (simp add: length_processDaily[OF t])
  have mh: "?h pkg ! 0 \<in> set (?h pkg)" for pkg
    using lh[of pkg] by (intro nth_mem) simp
  have md: "?d ! 0 \<in> set ?d"
    using ld by (intro nth_mem) simp
  note T = package_fields_only[of "\<lambda>_. ''11''" 0 exampleNow exampleFrame 1 "''basic''" 1]
  have a: "fst ` set (hf_fields (?h ''basic'' ! 0)) \<subseteq> set (getHourlyPackageFields ''basic'')"
    using T mh[of "''basic''"] by simp
  have b: "''significantwaveheight'' \<notin> fst ` set (hf_fields (?h ''basic'' ! 0))"
    using T mh[of "''basic''"] by blast
  have c: "''temperature'' \<notin> fst ` set (hf_fields (?h ''sea'' ! 0))"
    using T mh[of "''sea''"] by blast
  have "map_of (hf_fields (?h ''sea'' ! 0)) ''significantwaveheight'' =
        map_option Num (cell exampleFrame ''significantwaveheight'' (startIndexOf 0 exampleNow ?ts + 0))"
    using T t lh[of "''sea''"] by simp
  then have d: "map_of (hf_fields (?h ''sea'' ! 0)) ''significantwaveheight'' = Some (Num 2)"
    by (simp add: startIndex_example cell_def exampleFrame_def)
  have e: "fst ` set (df_fields (?d ! 0)) \<subseteq> set (getDailyPackageFields ''basic'')"
    using T md by blast
  show ?thesis using lh ld a b c d e by simp
qed

section \<open>The weather-query adapter\<close>

lemma currentDirection_absent:
  "forecastData ''currentvelocity_u'' = None \<or> forecastData ''currentvelocity_v'' = None \<Longrightarrow>
     currentDirection forecastData = None"
  by (auto simp: currentDirection_def split: option.splits)

lemma pressureTendency_absent:
  "forecastData ''pressure_trend'' = None \<Longrightarrow> forecastData ''sealevelpressure_trend'' = None \<Longrightarrow>
     pressureTendency forecastData = None"
  by (simp add: pressureTendency_def num_or_def)

text \<open>
  Claim C5, amended. In the hourly (observation and point) and in the daily shape,
  every output field that copies one stored field is absent when that stored field
  is absent; the dew point and the pressure tendency are absent when both stored
  fields they read are absent; the current direction (\<open>surfaceCurrentDirection\<close>,
  \<open>set\<close>) is absent when a velocity component is absent. Three fields are
  never absent: \<open>water.surfaceCurrentSpeed\<close> and \<open>current.drift\<close> are the
  magnitude of the current velocity with an absent component taken as 0, so they are
  0 when both components are absent, and in the hourly shape \<open>sun.isDaylight\<close>
  is the boolean \<open>isdaylight === 1\<close>, false when \<open>isdaylight\<close> is absent.
\<close>

theorem adapter_absent_fields:
  "(\<forall>(field, key) \<in> set
       [(outside_temperature \<circ> wd_outside, ''temperature''),
        (outside_pressure \<circ> wd_outside, ''sealevelpressure''),
        (outside_relativeHumidity \<circ> wd_outside, ''relativehumidity''),
        (outside_uvIndex \<circ> wd_outside, ''uvindex''),
        (outside_cloudCover \<circ> wd_outside, ''cloudcover''),
        (outside_precipitationVolume \<circ> wd_outside, ''precipitation''),
        (outside_feelsLikeTemperature \<circ> wd_outside, ''felttemperature''),
        (outside_horizontalVisibility \<circ> wd_outside, ''visibility''),
        (outside_precipitationProbability \<circ> wd_outside, ''precipitation_probability''),
        (outside_solarRadiation \<circ> wd_outside, ''solarradiation''),
        (outside_directNormalIrradiance \<circ> wd_outside, ''irradiance_direct_normal''),
        (outside_diffuseHorizontalIrradiance \<circ> wd_outside, ''irradiance_diffuse_horizontal''),
        (outside_globalHorizontalIrradiance \<circ> wd_outside, ''irradiance_global_horizontal''),
        (outside_extraterrestrialSolarRadiation \<circ> wd_outside, ''extraterrestrial_solar_radiation''),
        (outside_totalCloudCover \<circ> wd_outside, ''total_cloud_cover''),
        (outside_lowCloudCover \<circ> wd_outside, ''low_cloud_cover''),
        (outside_midCloudCover \<circ> wd_outside, ''mid_cloud_cover''),
        (outside_highCloudCover \<circ> wd_outside, ''high_cloud_cover''),
        (outside_cloudBaseHeight \<circ> wd_outside, ''cloud_base_height''),
        (outside_cloudTopHeight \<circ> wd_outside, ''cloud_top_height''),
        (wind_speedTrue \<circ> wd_wind, ''windspeed''),
        (wind_directionTrue \<circ> wd_wind, ''winddirection''),
        (wind_gust \<circ> wd_wind, ''gust''),
        (wind_averageSpeed \<circ> wd_wind, ''windspeed''),
        (wind_gustDirectionTrue \<circ> wd_wind, ''gustdirection''),
        (water_temperature \<circ> wd_water, ''seasurfacetemperature''),
        (water_waveSignificantHeight \<circ> wd_water, ''significantwaveheight''),
        (water_wavePeriod \<circ> wd_water, ''mean_waveperiod''),
        (water_waveDirection \<circ> wd_water, ''mean_wavedirection''),
        (water_swellHeight \<circ> wd_water, ''swell_significantheight''),
        (water_swellPeriod \<circ> wd_water, ''swell_meanperiod''),
        (water_swellDirection \<circ> wd_water, ''swell_meandirection''),
        (water_salinity \<circ> wd_water, ''salinity''),
        (water_seaState \<circ> wd_water, ''douglas_seastate''),
        (water_surfaceWaveHeight \<circ> wd_water, ''surfwave_height''),
        (water_windWaveHeight \<circ> wd_water, ''windwave_height''),
        (water_windWavePeriod \<circ> wd_water, ''windwave_meanperiod''),
        (water_windWaveDirection \<circ> wd_water, ''windwave_direction''),
        (water_swellPeakPeriod \<circ> wd_water, ''swell_peakwaveperiod''),
        (water_windWavePeakPeriod \<circ> wd_water, ''windwave_peakwaveperiod''),
        (water_waveSteepness \<circ> wd_water, ''wavesteepness''),
        (sun_sunshineDuration \<circ> wd_sun, ''sunshine_duration'')].
      forecastData key = None \<longrightarrow>
        field (convertToWeatherAPIObservation forecastData) = None \<and>
        field (convertToWeatherAPIForecast forecastData Point) = None) \<and>
   (\<forall>(field, key) \<in> set
       [(outside_temperature \<circ> wd_outside, ''temperature_mean''),
        (outside_maxTemperature \<circ> wd_outside, ''temperature_max''),
        (outside_minTemperature \<circ> wd_outside, ''temperature_min''),
        (outside_feelsLikeTemperature \<circ> wd_outside, ''felttemperature_mean''),
        (outside_pressure \<circ> wd_outside, ''sealevelpressure_mean''),
        (outside_relativeHumidity \<circ> wd_outside, ''relativehumidity_mean''),
        (outside_uvIndex \<circ> wd_outside, ''uvindex''),
        (outside_precipitationVolume \<circ> wd_outside, ''precipitation''),
        (outside_dewPointTemperature \<circ> wd_outside, ''dewpoint_mean''),
        (outside_horizontalVisibility \<circ> wd_outside, ''visibility_mean''),
        (outside_precipitationProbability \<circ> wd_outside, ''precipitation_probability''),
        (outside_cloudCover \<circ> wd_outside, ''cloudcover_mean''),
        (outside_totalCloudCover \<circ> wd_outside, ''total_cloud_cover_mean''),
        (outside_lowCloudCover \<circ> wd_outside, ''low_cloud_cover_mean''),
        (outside_midCloudCover \<circ> wd_outside, ''mid_cloud_cover_mean''),
        (outside_highCloudCover \<circ> wd_outside, ''high_cloud_cover_mean''),
        (outside_solarRadiation \<circ> wd_outside, ''solarradiation_mean''),
        (outside_directNormalIrradiance \<circ> wd_outside, ''irradiance_direct_normal_max''),
        (outside_diffuseHorizontalIrradiance \<circ> wd_outside, ''irradiance_diffuse_horizontal_max''),
        (outside_globalHorizontalIrradiance \<circ> wd_outside, ''irradiance_global_horizontal_max''),
        (wind_speedTrue \<circ> wd_wind, ''windspeed_max''),
        (wind_directionTrue \<circ> wd_wind, ''winddirection''),
        (wind_averageSpeed \<circ> wd_wind, ''windspeed_mean''),
        (water_temperature \<circ> wd_water, ''seasurfacetemperature_mean''),
        (sun_sunshineDuration \<circ> wd_sun, ''sunshine_duration'')].
      forecastData key = None \<longrightarrow> field (convertToWeatherAPIForecast forecastData Daily) = None) \<and>
   (\<forall>w \<in> {convertToWeatherAPIObservation forecastData,
             convertToWeatherAPIForecast forecastData Point,
             convertToWeatherAPIForecast forecastData Daily}.
      (forecastData ''currentvelocity_u'' = None \<or> forecastData ''currentvelocity_v'' = None \<longrightarrow>
         water_surfaceCurrentDirection (wd_water w) = None \<and> current_set (wd_current w) = None) \<and>
      water_surfaceCurrentSpeed (wd_water w) =
        Some (sqrt ((orZero (forecastData ''currentvelocity_u''))\<^sup>2 +
                    (orZero (forecastData ''currentvelocity_v''))\<^sup>2)) \<and>
      current_drift (wd_current w) = water_surfaceCurrentSpeed (wd_water w) \<and>
      (forecastData ''currentvelocity_u'' = None \<and> forecastData ''currentvelocity_v'' = None \<longrightarrow>
         water_surfaceCurrentSpeed (wd_water w) = Some 0)) \<and>
   (\<forall>w \<in> {convertToWeatherAPIObservation forecastData,
             convertToWeatherAPIForecast forecastData Point}.
      (forecastData ''dewpoint'' = None \<and> forecastData ''dewpointtemperature'' = None \<longrightarrow>
         outside_dewPointTemperature (wd_outside w) = None) \<and>
      (forecastData ''pressure_trend'' = None \<and> forecastData ''sealevelpressure_trend'' = None \<longrightarrow>
         outside_pressureTendency (wd_outside w) = None) \<and>
      sun_isDaylight (wd_sun w) = Some (forecastData ''isdaylight'' = Some 1))"
  by (auto simp: convertToWeatherAPIObservation_def convertToWeatherAPIForecast_def
      currentDirection_absent pressureTendency_absent num_or_def orZero_def
      currentSpeed_def)

text \<open>
  From a stored record with no field at all, the surface current speed and the drift
  come out as 0, in the hourly and in the daily shape.
\<close>

theorem adapter_zero_counterexample:
  "water_surfaceCurrentSpeed (wd_water (convertToWeatherAPIObservation Map.empty)) = Some 0 \<and>
   current_drift (wd_current (convertToWeatherAPIObservation Map.empty)) = Some 0 \<and>
   water_surfaceCurrentSpeed (wd_water (convertToWeatherAPIForecast Map.empty Daily)) = Some 0 \<and>
   current_drift (wd_current (convertToWeatherAPIForecast Map.empty Daily)) = Some 0"
  by (simp add: convertToWeatherAPIObservation_def convertToWeatherAPIForecast_def
      currentSpeed_def num_or_def orZero_def)

text \<open>The theorem on a stored record that holds only a wind speed.\<close>

theorem adapter_absent_fields_witness:
  "outside_temperature (wd_outside (convertToWeatherAPIObservation [''windspeed'' \<mapsto> 5])) = None \<and>
   water_waveSignificantHeight (wd_water (convertToWeatherAPIForecast [''windspeed'' \<mapsto> 5] Point)) = None \<and>
   outside_maxTemperature (wd_outside (convertToWeatherAPIForecast [''windspeed'' \<mapsto> 5] Daily)) = None \<and>
   current_set (wd_current (convertToWeatherAPIObservation [''windspeed'' \<mapsto> 5])) = None \<and>
   water_surfaceCurrentSpeed (wd_water (convertToWeatherAPIObservation [''windspeed'' \<mapsto> 5])) = Some 0 \<and>
   outside_dewPointTemperature (wd_outside (convertToWeatherAPIObservation [''windspeed'' \<mapsto> 5])) = None \<and>
   outside_pressureTendency (wd_outside (convertToWeatherAPIObservation [''windspeed'' \<mapsto> 5])) = None \<and>
   sun_isDaylight (wd_sun (convertToWeatherAPIObservation [''windspeed'' \<mapsto> 5])) = Some False"
  using adapter_absent_fields[of "[''windspeed'' \<mapsto> 5]"]
  by (simp add: orZero_def num_or_def)

section \<open>Where the hourly processor starts\<close>

lemma firstIndexWhere_Some:
  "firstIndexWhere P xs = Some i \<Longrightarrow> i < length xs \<and> P (xs ! i) \<and> (\<forall>j<i. \<not> P (xs ! j))"
proof (induction xs arbitrary: i)
  case Nil
  then show ?case by simp
next
  case (Cons x xs)
  show ?case
  proof (cases "P x")
    case True
    with Cons.prems show ?thesis by simp
  next
    case False
    with Cons.prems obtain k where k: "firstIndexWhere P xs = Some k" "i = Suc k"
      by (auto split: if_splits)
    from Cons.IH[OF k(1)] False k(2) show ?thesis
      by (auto simp: less_Suc_eq_0_disj)
  qed
qed

lemma firstIndexWhere_None:
  "firstIndexWhere P xs = None \<longleftrightarrow> (\<forall>x \<in> set xs. \<not> P x)"
  by (induction xs) auto

text \<open>When some row is at or after the current hour, the start is the first such row.\<close>
lemma startIndexOf_first:
  assumes "firstIndexWhere (\<lambda>t. currentHourOf tz now \<le> t) ts = Some i"
  shows "startIndexOf tz now ts = i"
proof (cases "i = 0 \<and> ts \<noteq> []")
  case True
  with firstIndexWhere_Some[OF assms] have "currentHourOf tz now \<le> hd ts"
    by (cases ts) auto
  with assms True show ?thesis by (simp add: startIndexOf_def Let_def)
next
  case False
  with firstIndexWhere_Some[OF assms] have "i \<noteq> 0" by auto
  with assms show ?thesis by (simp add: startIndexOf_def Let_def)
qed

text \<open>When every row is before the current hour, the start is row 0.\<close>
lemma startIndexOf_all_past:
  assumes "\<forall>t \<in> set ts. t < currentHourOf tz now" "currentHourOf tz now \<le> now"
  shows "startIndexOf tz now ts = 0"
proof -
  have 1: "firstIndexWhere (\<lambda>t. currentHourOf tz now \<le> t) ts = None"
    using assms(1) by (force simp: firstIndexWhere_None)
  have 2: "firstIndexWhere (\<lambda>t. now < t) ts = None"
    using assms by (force simp: firstIndexWhere_None)
  show ?thesis by (simp add: startIndexOf_def Let_def 1 2)
qed

lemma stale_rows_past:
  "\<forall>t \<in> set [1705302000000, 1705305600000, 1705309200000]. t < currentHourOf 0 exampleNow"
  by (simp add: currentHour_example)

lemma stale_start: "startIndexOf 0 exampleNow [1705302000000, 1705305600000, 1705309200000] = 0"
  by code_simp

lemma floor_minus_one: "\<lfloor>- 1 :: real\<rfloor> = - 1"
  using floor_of_int[of "- 1", where ?'a = real] by simp

text \<open>
  Claim C10 at a frame whose rows are all before the current hour (10:00): neither
  search finds a row, the start index stays 0, and with 24 hours asked for all three
  past rows are emitted, with negative relative hours.
\<close>

theorem stale_frame_emitted:
  "currentHourOf 0 exampleNow = 1705312800000 \<and>
   processHourlyForecastForPackage (\<lambda>_. []) 0 exampleNow staleFrame 24 ''basic'' =
     [\<lparr>hf_timestamp = 1705302000000, hf_relativeHour = - 3,
       hf_fields = [(''temperature'', Num (28315 / 100))]\<rparr>,
      \<lparr>hf_timestamp = 1705305600000, hf_relativeHour = - 2,
       hf_fields = [(''temperature'', Num (28415 / 100))]\<rparr>,
      \<lparr>hf_timestamp = 1705309200000, hf_relativeHour = - 1,
       hf_fields = [(''temperature'', Num (28515 / 100))]\<rparr>]"
proof (intro conjI)
  show "currentHourOf 0 exampleNow = 1705312800000"
    by (rule currentHour_example)
  show "processHourlyForecastForPackage (\<lambda>_. []) 0 exampleNow staleFrame 24 ''basic'' =
     [\<lparr>hf_timestamp = 1705302000000, hf_relativeHour = - 3,
       hf_fields = [(''temperature'', Num (28315 / 100))]\<rparr>,
      \<lparr>hf_timestamp = 1705305600000, hf_relativeHour = - 2,
       hf_fields = [(''temperature'', Num (28415 / 100))]\<rparr>,
      \<lparr>hf_timestamp = 1705309200000, hf_relativeHour = - 1,
       hf_fields = [(''temperature'', Num (28515 / 100))]\<rparr>]"
    unfolding processHourlyForecastForPackage_def staleFrame_def
    by (simp add: stale_start[unfolded exampleNow_def] Let_def
        hourlyRow_def extractFields_def extractField_def cell_def getHourlyPackageFields_def
        hourlyFieldMappings_def applyUnitConversion_def assignAll_def exampleNow_def round_def
        celsiusToKelvin_def upt_conv_Cons floor_minus_one)
qed

section \<open>The row search of the moving assembler\<close>

lemma find_map_option: "find P (map f xs) = map_option f (find (\<lambda>x. P (f x)) xs)"
  by (induction xs) auto

text \<open>
  The search of the moving assembler runs over the window that the hourly processor
  emits, not over the series: rows \<open>startIndex\<close> to \<open>startIndex + count - 1\<close>.
\<close>
lemma findTargetForecast_window:
  assumes "time data = Some ts"
  shows "findTargetForecast tz targetTime
           (processHourlyForecastForPackage fmt tz now data maxHours pkg) =
         map_option
           (\<lambda>i. hourlyRow fmt now data ts (getHourlyPackageFields pkg) (startIndexOf tz now ts + i))
           (find (\<lambda>i. sameLocalHour tz (ts ! (startIndexOf tz now ts + i)) targetTime)
              [0 ..< nat (min (int (length ts) - int (startIndexOf tz now ts)) maxHours)])"
  using assms
  by (simp add: findTargetForecast_def processHourlyForecastForPackage_def Let_def
      find_map_option hourlyRow_def)

lemma night_currentHour: "currentHourOf 0 lateNow = 1705352400000"
  by code_simp

lemma night_start: "startIndexOf 0 lateNow nightTimes = 21"
  by code_simp

lemma night_target_hours: "getHours 0 1705363200000 = 0"
  by code_simp

lemma night_row_24:
  "nightTimes ! 24 = 1705363200000"
  "sameLocalHour 0 (nightTimes ! 24) 1705363200000"
  by code_simp+

lemma night_window_miss:
  "find (\<lambda>i. sameLocalHour 0 (nightTimes ! (21 + i)) 1705363200000) [0 ..< 3] = None"
  by code_simp

lemma night_window_times:
  "map (\<lambda>i. nightTimes ! (21 + i)) [0 ..< 3] = [1705352400000, 1705356000000, 1705359600000]"
  by code_simp

lemma night_time: "time nightFrame = Some nightTimes"
  by (simp add: nightFrame_def)

lemma night_length: "length nightTimes = 30"
  by (simp add: nightTimes_def)

lemma night_find:
  "findTargetForecast 0 1705363200000
     (processHourlyForecastForPackage fmt 0 lateNow nightFrame 3 pkg) = None"
  using night_window_miss
  by (simp add: findTargetForecast_window[OF night_time] night_start night_length)

lemma night_window:
  "map hf_timestamp (processHourlyForecastForPackage fmt 0 lateNow nightFrame 3 pkg) =
     [1705352400000, 1705356000000, 1705359600000]"
  using night_window_times
  by (simp add: processHourlyForecastForPackage_def night_time night_start night_length
      Let_def hourlyRow_def comp_def)

lemma night_addHour:
  "addHourForPackage nightEnv nightFrame 3 1705363200000 pos ''basic-1h'' acc = acc"
  using night_find[of "\<lambda>_. []" "''basic''"]
  by (simp add: addHourForPackage_def nightEnv_def Let_def)

lemma night_packages: "hourlyPackagesOf movingConfig = [''basic-1h'']"
  by (simp add: hourlyPackagesOf_def getEnabledPackages_def movingConfig_def)

lemma night_enabled: "getEnabledPackages movingConfig = [''basic-1h'']"
  by (simp add: getEnabledPackages_def movingConfig_def)

lemma moving_state_moves: "\<not> movingGuard movingState movingConfig"
  by (simp add: movingGuard_def movingState_def movingConfig_def falsyNum_def isVesselMoving_def)

lemma night_hours:
  "getHours 0 1705352400000 = 21" "getHours 0 1705356000000 = 22"
  "getHours 0 1705359600000 = 23" "getHours 0 1705363200000 = 0"
  by code_simp+

lemma night_window_hits:
  "find (\<lambda>i. sameLocalHour 0 (nightTimes ! (21 + i)) 1705352400000) [0 ..< 9] = Some 0"
  "find (\<lambda>i. sameLocalHour 0 (nightTimes ! (21 + i)) 1705356000000) [0 ..< 9] = Some 1"
  "find (\<lambda>i. sameLocalHour 0 (nightTimes ! (21 + i)) 1705359600000) [0 ..< 9] = Some 2"
  by code_simp+

lemma night_rows: "nightTimes ! 21 = 1705352400000" "nightTimes ! 22 = 1705356000000"
  "nightTimes ! 23 = 1705359600000"
  by code_simp+

lemma night_addHour_hit:
  assumes "find (\<lambda>i. sameLocalHour 0 (nightTimes ! (21 + i)) target) [0 ..< 9] = Some i"
    and "9 \<le> n"
  shows "\<exists>r. hf_timestamp r = nightTimes ! (21 + i) \<and>
           (\<forall>acc. addHourForPackage nightEnv nightFrame n target pos ''basic-1h'' acc =
                    AList.map_entry ''basic'' (\<lambda>fs. fs @ [r]) acc)"
proof -
  let ?row = "hourlyRow (\<lambda>_. []) lateNow nightFrame nightTimes (getHourlyPackageFields ''basic'') (21 + i)"
  let ?r = "?row\<lparr>hf_fields :=
              assignAll [(''predictedLatitude'', Num (latitude pos)),
                         (''predictedLongitude'', Num (longitude pos)),
                         (''vesselMoving'', Bool True)] (hf_fields ?row)\<rparr>"
  have "nat (min 9 n) = 9" using assms(2) by simp
  then have "findTargetForecast 0 target
      (processHourlyForecastForPackage (\<lambda>_. []) 0 lateNow nightFrame n ''basic'') = Some ?row"
    using assms(1)
    by (simp add: findTargetForecast_window[OF night_time] night_start night_length)
  then have "\<forall>acc. addHourForPackage nightEnv nightFrame n target pos ''basic-1h'' acc =
                    AList.map_entry ''basic'' (\<lambda>fs. fs @ [?r]) acc"
    by (simp add: addHourForPackage_def nightEnv_def Let_def)
  moreover have "hf_timestamp ?r = nightTimes ! (21 + i)"
    by (simp add: hourlyRow_def)
  ultimately show ?thesis by blast
qed

text \<open>
  The whole cycle of the example session at 21:30 with four forecast hours: five
  requests are made (four hours and the daily data), and three hourly records are
  published, for 21:00, 22:00 and 23:00; there is none for midnight.
\<close>

lemma night_cycle:
  "length (requests (snd (fetchForecastForMovingVessel nightEnv movingConfig (movingState, emptyWorld)))) = 5 \<and>
   map (\<lambda>d. case d of HourlyDelta p i f \<Rightarrow> Some (p, i, hf_timestamp f) | _ \<Rightarrow> None)
     (published (snd (fetchForecastForMovingVessel nightEnv movingConfig (movingState, emptyWorld)))) =
     [Some (''basic'', 0, 1705352400000), Some (''basic'', 1, 1705356000000),
      Some (''basic'', 2, 1705359600000)]"
proof -
  have env: "env_tz nightEnv = 0" "env_now nightEnv = lateNow"
    "\<And>n url. env_fetch nightEnv n url = Response \<lparr>data_1h = Some nightFrame, data_day = None\<rparr>"
    by (simp_all add: nightEnv_def)
  let ?pos = "\<lambda>h. calculateFuturePosition examplePosition 1 5 h"
  obtain r0 where r0: "hf_timestamp r0 = 1705352400000"
     "\<And>acc. addHourForPackage nightEnv nightFrame 24 1705352400000 (?pos 0) ''basic-1h'' acc =
             AList.map_entry ''basic'' (\<lambda>fs. fs @ [r0]) acc"
    using night_addHour_hit[OF night_window_hits(1), of 24 "?pos 0"] night_rows by auto
  obtain r1 where r1: "hf_timestamp r1 = 1705356000000"
     "\<And>acc. addHourForPackage nightEnv nightFrame 25 1705356000000 (?pos 1) ''basic-1h'' acc =
             AList.map_entry ''basic'' (\<lambda>fs. fs @ [r1]) acc"
    using night_addHour_hit[OF night_window_hits(2), of 25 "?pos 1"] night_rows by auto
  obtain r2 where r2: "hf_timestamp r2 = 1705359600000"
     "\<And>acc. addHourForPackage nightEnv nightFrame 26 1705359600000 (?pos 2) ''basic-1h'' acc =
             AList.map_entry ''basic'' (\<lambda>fs. fs @ [r2]) acc"
    using night_addHour_hit[OF night_window_hits(3), of 26 "?pos 2"] night_rows by auto
  have hours: "[0 ..< nat (maxForecastHours movingConfig)] = [0, 1, 2, 3]"
    by (simp add: movingConfig_def upt_conv_Cons)
  have nav: "currentPosition movingState = Some examplePosition"
    "currentHeading movingState = Some 1" "currentSOG movingState = Some 5"
    by (simp_all add: movingState_def)
  show ?thesis
    using nav moving_state_moves
    by (simp add: fetchForecastForMovingVessel_def Let_def hours night_packages
        night_currentHour night_hours night_time night_addHour
        publishMovingForecasts_def publishHourlyForecasts_def env buildMeteoblueUrl_def
        night_enabled emptyWorld_def r0 r1 r2 upt_conv_Cons del: upt_Suc)
qed

text \<open>
  Claim C4 at 21:30 with hour offset 3, whose target is midnight of the next day: the
  series has the row of that hour at index 24, but the hours asked of the hourly
  processor are the target's hours since midnight plus 3, that is 3, counted from the
  current hour. The window is 21:00 to 23:00, the search finds nothing, and the
  iteration for that hour adds no record and throws nothing: of the four hours of
  the cycle, three are published.
\<close>

theorem midnight_hour_skipped:
  "nightTimes ! 24 = currentHourOf 0 lateNow + 3 * 3600000 \<and>
   sameLocalHour 0 (nightTimes ! 24) (currentHourOf 0 lateNow + 3 * 3600000) \<and>
   getHours 0 (currentHourOf 0 lateNow + 3 * 3600000) + 1 + 2 = 3 \<and>
   map hf_timestamp (processHourlyForecastForPackage (\<lambda>_. []) 0 lateNow nightFrame 3 ''basic'') =
     [1705352400000, 1705356000000, 1705359600000] \<and>
   findTargetForecast 0 (currentHourOf 0 lateNow + 3 * 3600000)
     (processHourlyForecastForPackage (\<lambda>_. []) 0 lateNow nightFrame 3 ''basic'') = None \<and>
   fst (movingLoop nightEnv movingConfig examplePosition 1 5 [3] [(''basic'', [])] emptyWorld) =
     Some [(''basic'', [])] \<and>
   maxForecastHours movingConfig = 4 \<and>
   map (\<lambda>d. case d of HourlyDelta p i f \<Rightarrow> Some (p, i, hf_timestamp f) | _ \<Rightarrow> None)
     (published (snd (fetchForecastForMovingVessel nightEnv movingConfig (movingState, emptyWorld)))) =
     [Some (''basic'', 0, 1705352400000), Some (''basic'', 1, 1705356000000),
      Some (''basic'', 2, 1705359600000)]"
proof -
  have env: "env_tz nightEnv = 0" "env_now nightEnv = lateNow"
    "\<And>n url. env_fetch nightEnv n url = Response \<lparr>data_1h = Some nightFrame, data_day = None\<rparr>"
    by (simp_all add: nightEnv_def)
  have loop: "fst (movingLoop nightEnv movingConfig examplePosition 1 5 [3] [(''basic'', [])] emptyWorld) =
     Some [(''basic'', [])]"
    by (simp add: env night_currentHour night_target_hours buildMeteoblueUrl_def night_enabled
        night_packages night_time night_addHour Let_def)
  have four: "maxForecastHours movingConfig = 4"
    by (simp add: movingConfig_def)
  show ?thesis
    using night_row_24 night_target_hours night_window night_find loop four night_cycle
    by (simp add: night_currentHour)
qed

section \<open>Fetch failures\<close>

lemma buildMeteoblueUrl_enabled:
  "getEnabledPackages config \<noteq> [] \<Longrightarrow>
     buildMeteoblueUrl (latitude p) (longitude p) config = Some (requestAt config p)"
  by (simp add: buildMeteoblueUrl_def requestAt_def Let_def)

lemma fetchForecast_advances:
  "meteoblueApiKey config \<noteq> [] \<Longrightarrow>
     lastForecastUpdate (fst (fetchForecast env position config sw)) = env_now env"
  by (simp add: fetchForecast_def Let_def split: option.splits FetchOutcome.splits)

lemma moving_advances:
  "meteoblueApiKey config \<noteq> [] \<Longrightarrow>
     lastForecastUpdate (fst (fetchForecastForMovingVessel env config sw)) = env_now env"
  by (simp add: fetchForecastForMovingVessel_def Let_def fetchForecast_advances
      split: option.splits prod.splits FetchOutcome.splits)

lemma fetchForecast_failure:
  assumes "meteoblueApiKey config \<noteq> []" "getEnabledPackages config \<noteq> []"
    and "isFailure (env_fetch env (length (requests w)) (requestAt config pos))"
  shows "fetchForecast env (Some pos) config (st, w) =
           (st\<lparr>lastForecastUpdate := env_now env\<rparr>,
            w\<lparr>requests := requests w @ [requestAt config pos]\<rparr>)"
  using assms
  by (simp add: fetchForecast_def Let_def buildMeteoblueUrl_enabled isFailure_def
      split: FetchOutcome.splits)

lemma fetchForecast_requests:
  assumes "meteoblueApiKey config \<noteq> []" "getEnabledPackages config \<noteq> []"
  shows "requests (snd (fetchForecast env (Some pos) config (st, w))) =
           requests w @ [requestAt config pos]"
  using assms
  by (simp add: fetchForecast_def Let_def buildMeteoblueUrl_enabled split: FetchOutcome.splits)

lemma stationary_hourly_not_moving:
  "\<forall>d \<in> set (publishHourlyPackages env config dataHourly). \<not> isMovingDelta d"
proof -
  have "''vesselMoving'' \<notin> fst ` set (hf_fields r)"
    if "r \<in> set (processHourlyForecastForPackage fmt tz now dataHourly maxHours pkg)"
    for r fmt tz now maxHours pkg
    using hourly_keys[OF that] vesselMoving_not_listed[of pkg]
    by (auto simp: derivedKeys_def split: if_splits)
  then show ?thesis
    by (auto simp: publishHourlyPackages_def publishHourlyForecasts_def isMovingDelta_def
        Let_def dest!: set_zip_rightD)
qed

lemma stationary_daily_not_moving:
  "\<forall>d \<in> set (publishDailyPackages env config dataDay). \<not> isMovingDelta d"
  by (auto simp: publishDailyPackages_def publishDailyForecasts_def isMovingDelta_def Let_def)

lemma fetchForecast_published:
  "\<exists>extra. published (snd (fetchForecast env position config (st, w))) = published w @ extra \<and>
           (\<forall>d \<in> set extra. \<not> isMovingDelta d)"
proof -
  have meta: "\<not> isMovingDelta MetadataDelta" by (simp add: isMovingDelta_def)
  show ?thesis
    using stationary_hourly_not_moving stationary_daily_not_moving meta
    by (auto simp: fetchForecast_def Let_def split: option.splits FetchOutcome.splits)
qed

lemma movingLoop_failure:
  assumes "getEnabledPackages config \<noteq> []"
    and "k < length hours"
    and "\<forall>j<k. \<not> isFailure (env_fetch env (length (requests w) + j)
            (requestAt config (calculateFuturePosition pos heading sog (int (hours ! j)))))"
    and "isFailure (env_fetch env (length (requests w) + k)
            (requestAt config (calculateFuturePosition pos heading sog (int (hours ! k)))))"
  shows "movingLoop env config pos heading sog hours acc w =
           (None, w\<lparr>requests := requests w @
                       map (\<lambda>h. requestAt config (calculateFuturePosition pos heading sog (int h)))
                         (take (Suc k) hours)\<rparr>)"
  using assms(2-)
proof (induction hours arbitrary: k acc w)
  case Nil
  then show ?case by simp
next
  case (Cons hour hours)
  let ?url = "requestAt config (calculateFuturePosition pos heading sog (int hour))"
  have url: "buildMeteoblueUrl (latitude (calculateFuturePosition pos heading sog (int hour)))
               (longitude (calculateFuturePosition pos heading sog (int hour))) config = Some ?url"
    using assms(1) by (rule buildMeteoblueUrl_enabled)
  show ?case
  proof (cases k)
    case 0
    with Cons.prems have "isFailure (env_fetch env (length (requests w)) ?url)" by simp
    then show ?thesis
      using 0 by (simp add: url Let_def isFailure_def split: FetchOutcome.splits)
  next
    case (Suc k')
    from Cons.prems Suc have "\<not> isFailure (env_fetch env (length (requests w)) ?url)"
      by (metis add.right_neutral nth_Cons_0 zero_less_Suc)
    then obtain d where d: "env_fetch env (length (requests w)) ?url = Response d"
      by (cases "env_fetch env (length (requests w)) ?url") (simp_all add: isFailure_def)
    let ?w1 = "w\<lparr>requests := requests w @ [?url]\<rparr>"
    have k': "k' < length hours" using Cons.prems Suc by simp
    have ok: "\<forall>j<k'. \<not> isFailure (env_fetch env (length (requests ?w1) + j)
            (requestAt config (calculateFuturePosition pos heading sog (int (hours ! j)))))"
    proof (intro allI impI)
      fix j assume "j < k'"
      then have "Suc j < k" using Suc by simp
      with Cons.prems(2) have "\<not> isFailure (env_fetch env (length (requests w) + Suc j)
            (requestAt config (calculateFuturePosition pos heading sog (int ((hour # hours) ! Suc j)))))"
        by blast
      then show "\<not> isFailure (env_fetch env (length (requests ?w1) + j)
            (requestAt config (calculateFuturePosition pos heading sog (int (hours ! j)))))"
        by simp
    qed
    have bad: "isFailure (env_fetch env (length (requests ?w1) + k')
            (requestAt config (calculateFuturePosition pos heading sog (int (hours ! k')))))"
      using Cons.prems(3) Suc by simp
    note IH = Cons.IH[OF k' ok bad]
    show ?thesis
      using Suc by (simp add: url Let_def d IH)
  qed
qed


text \<open>
  Claim C3. With an API key configured (the plugin does not start without one), a
  fetch cycle, stationary or moving, always ends with \<open>lastForecastUpdate\<close> set
  to the current time, whatever the network answers. A stationary fetch whose
  request fails changes nothing else than that and the request made. In the moving
  path, when the requests for the hours before \<open>k\<close> are answered and the request
  for hour \<open>k\<close> fails (rejected, status not ok, or a body that does not parse), the
  cycle is exactly one stationary fetch at the current position, made from the
  unchanged state after the \<open>k + 1\<close> requests of the moving path: that fetch is
  the only further request, and nothing published in the cycle is a moving-path
  forecast.
\<close>

theorem fetch_failure_cycle:
  "meteoblueApiKey config \<noteq> [] \<Longrightarrow>
   lastForecastUpdate (fst (fetchForecast env position config (st, w))) = env_now env \<and>
   lastForecastUpdate (fst (fetchForecastForMovingVessel env config (st, w))) = env_now env \<and>
   (getEnabledPackages config \<noteq> [] \<and>
    isFailure (env_fetch env (length (requests w)) (requestAt config pos)) \<longrightarrow>
      fetchForecast env (Some pos) config (st, w) =
        (st\<lparr>lastForecastUpdate := env_now env\<rparr>,
         w\<lparr>requests := requests w @ [requestAt config pos]\<rparr>)) \<and>
   (getEnabledPackages config \<noteq> [] \<and>
    currentPosition st = Some pos \<and> currentHeading st = Some heading \<and>
    currentSOG st = Some sog \<and> \<not> movingGuard st config \<and>
    k < nat (maxForecastHours config) \<and>
    (\<forall>j<k. \<not> isFailure (env_fetch env (length (requests w) + j)
               (requestAt config (calculateFuturePosition pos heading sog (int j))))) \<and>
    isFailure (env_fetch env (length (requests w) + k)
      (requestAt config (calculateFuturePosition pos heading sog (int k)))) \<longrightarrow>
      (let w1 = w\<lparr>requests := requests w @
                     map (\<lambda>h. requestAt config (calculateFuturePosition pos heading sog (int h)))
                       [0 ..< Suc k]\<rparr>;
           r = fetchForecastForMovingVessel env config (st, w)
       in r = fetchForecast env (Some pos) config (st, w1) \<and>
          requests (snd r) = requests w1 @ [requestAt config pos] \<and>
          (\<exists>extra. published (snd r) = published w @ extra \<and>
                   (\<forall>d \<in> set extra. \<not> isMovingDelta d))))"
proof -
  assume key: "meteoblueApiKey config \<noteq> []"
  have a: "lastForecastUpdate (fst (fetchForecast env position config (st, w))) = env_now env"
    using key by (rule fetchForecast_advances)
  have b: "lastForecastUpdate (fst (fetchForecastForMovingVessel env config (st, w))) = env_now env"
    using key by (rule moving_advances)
  have c: "fetchForecast env (Some pos) config (st, w) =
        (st\<lparr>lastForecastUpdate := env_now env\<rparr>,
         w\<lparr>requests := requests w @ [requestAt config pos]\<rparr>)"
    if "getEnabledPackages config \<noteq> []"
      "isFailure (env_fetch env (length (requests w)) (requestAt config pos))"
    using key that by (rule fetchForecast_failure)
  have d: "let w1 = w\<lparr>requests := requests w @
                     map (\<lambda>h. requestAt config (calculateFuturePosition pos heading sog (int h)))
                       [0 ..< Suc k]\<rparr>;
           r = fetchForecastForMovingVessel env config (st, w)
       in r = fetchForecast env (Some pos) config (st, w1) \<and>
          requests (snd r) = requests w1 @ [requestAt config pos] \<and>
          (\<exists>extra. published (snd r) = published w @ extra \<and>
                   (\<forall>d \<in> set extra. \<not> isMovingDelta d))"
    if pk: "getEnabledPackages config \<noteq> []"
      and nav: "currentPosition st = Some pos" "currentHeading st = Some heading"
        "currentSOG st = Some sog" "\<not> movingGuard st config"
      and k: "k < nat (maxForecastHours config)"
      and ok: "\<forall>j<k. \<not> isFailure (env_fetch env (length (requests w) + j)
               (requestAt config (calculateFuturePosition pos heading sog (int j))))"
      and bad: "isFailure (env_fetch env (length (requests w) + k)
            (requestAt config (calculateFuturePosition pos heading sog (int k))))"
  proof -
    let ?hours = "[0 ..< nat (maxForecastHours config)]"
    let ?url = "\<lambda>h. requestAt config (calculateFuturePosition pos heading sog (int h))"
    let ?w1 = "w\<lparr>requests := requests w @ map ?url [0 ..< Suc k]\<rparr>"
    have len: "k < length ?hours" using k by simp
    have ok': "\<forall>j<k. \<not> isFailure (env_fetch env (length (requests w) + j) (?url (?hours ! j)))"
      using ok k by simp
    have bad': "isFailure (env_fetch env (length (requests w) + k) (?url (?hours ! k)))"
      using bad k by simp
    have tk: "take (Suc k) ?hours = [0 ..< Suc k]"
      using k by (simp add: take_upt del: upt_Suc)
    have loop: "movingLoop env config pos heading sog ?hours acc w = (None, ?w1)" for acc
      using movingLoop_failure[OF pk len ok' bad', of acc] by (simp only: tk)
    have r: "fetchForecastForMovingVessel env config (st, w) =
             fetchForecast env (Some pos) config (st, ?w1)"
      using nav by (simp add: fetchForecastForMovingVessel_def Let_def loop del: upt_Suc)
    have rq: "requests (snd (fetchForecast env (Some pos) config (st, ?w1))) =
              requests ?w1 @ [requestAt config pos]"
      using key pk by (rule fetchForecast_requests)
    obtain extra where ex: "published (snd (fetchForecast env (Some pos) config (st, ?w1))) =
                              published ?w1 @ extra" "\<forall>d \<in> set extra. \<not> isMovingDelta d"
      using fetchForecast_published[of env "Some pos" config st ?w1] by blast
    show ?thesis
      unfolding Let_def r using rq ex by (auto simp del: upt_Suc)
  qed
  show ?thesis using a b c d by blast
qed


text \<open>
  The theorem on the example session when the second request (hour 1) is answered
  with status 500, and on a stationary fetch whose request is answered so.
\<close>

theorem fetch_failure_cycle_witness:
  "lastForecastUpdate
     (fst (fetchForecastForMovingVessel failingEnv movingConfig (movingState, emptyWorld))) = lateNow \<and>
   requests (snd (fetchForecastForMovingVessel failingEnv movingConfig (movingState, emptyWorld))) =
     [requestAt movingConfig (calculateFuturePosition examplePosition 1 5 0),
      requestAt movingConfig (calculateFuturePosition examplePosition 1 5 1),
      requestAt movingConfig examplePosition] \<and>
   filter isMovingDelta
     (published (snd (fetchForecastForMovingVessel failingEnv movingConfig (movingState, emptyWorld)))) = [] \<and>
   fetchForecast failingEnv (Some examplePosition) movingConfig
     (movingState, emptyWorld\<lparr>requests := [requestAt movingConfig examplePosition]\<rparr>) =
     (movingState\<lparr>lastForecastUpdate := lateNow\<rparr>,
      emptyWorld\<lparr>requests := [requestAt movingConfig examplePosition,
                                requestAt movingConfig examplePosition]\<rparr>)"
proof -
  let ?r = "fetchForecastForMovingVessel failingEnv movingConfig (movingState, emptyWorld)"
  let ?w = "emptyWorld\<lparr>requests := [requestAt movingConfig examplePosition]\<rparr>"
  have key: "meteoblueApiKey movingConfig \<noteq> []" by (simp add: movingConfig_def)
  have pk: "getEnabledPackages movingConfig \<noteq> []" by (simp add: night_enabled)
  have env: "env_now failingEnv = lateNow"
    "\<And>url. env_fetch failingEnv 0 url = Response \<lparr>data_1h = Some nightFrame, data_day = None\<rparr>"
    "\<And>url. env_fetch failingEnv (Suc 0) url = HttpStatus 500"
    by (simp_all add: failingEnv_def nightEnv_def)
  have hours: "maxForecastHours movingConfig = 4" by (simp add: movingConfig_def)
  note T = fetch_failure_cycle[OF key, where env = failingEnv and position = "Some examplePosition"
      and st = movingState and w = emptyWorld and pos = examplePosition and heading = 1
      and sog = 5 and k = 1]
  have nav: "currentPosition movingState = Some examplePosition"
    "currentHeading movingState = Some 1" "currentSOG movingState = Some 5"
    by (simp_all add: movingState_def)
  have hyp: "getEnabledPackages movingConfig \<noteq> [] \<and>
    currentPosition movingState = Some examplePosition \<and> currentHeading movingState = Some 1 \<and>
    currentSOG movingState = Some 5 \<and> \<not> movingGuard movingState movingConfig \<and>
    1 < nat (maxForecastHours movingConfig) \<and>
    (\<forall>j<1. \<not> isFailure (env_fetch failingEnv (length (requests emptyWorld) + j)
               (requestAt movingConfig (calculateFuturePosition examplePosition 1 5 (int j))))) \<and>
    isFailure (env_fetch failingEnv (length (requests emptyWorld) + 1)
      (requestAt movingConfig (calculateFuturePosition examplePosition 1 5 (int 1))))"
    using pk nav moving_state_moves
    by (simp add: emptyWorld_def env isFailure_def hours)
  from T hyp
  have m: "let w1 = emptyWorld\<lparr>requests := requests emptyWorld @
                     map (\<lambda>h. requestAt movingConfig (calculateFuturePosition examplePosition 1 5 (int h)))
                       [0 ..< Suc 1]\<rparr>;
               r = ?r
       in r = fetchForecast failingEnv (Some examplePosition) movingConfig (movingState, w1) \<and>
          requests (snd r) = requests w1 @ [requestAt movingConfig examplePosition] \<and>
          (\<exists>extra. published (snd r) = published emptyWorld @ extra \<and>
                   (\<forall>d \<in> set extra. \<not> isMovingDelta d))"
    by blast
  have m2: "requests (snd ?r) =
      requests (emptyWorld\<lparr>requests := requests emptyWorld @
                     map (\<lambda>h. requestAt movingConfig (calculateFuturePosition examplePosition 1 5 (int h)))
                       [0 ..< Suc 1]\<rparr>) @ [requestAt movingConfig examplePosition]"
    and m3: "\<exists>extra. published (snd ?r) = published emptyWorld @ extra \<and>
                   (\<forall>d \<in> set extra. \<not> isMovingDelta d)"
    using m unfolding Let_def by blast+
  have a: "lastForecastUpdate (fst ?r) = lateNow"
    using T env(1) by simp
  have b: "requests (snd ?r) =
     [requestAt movingConfig (calculateFuturePosition examplePosition 1 5 0),
      requestAt movingConfig (calculateFuturePosition examplePosition 1 5 1),
      requestAt movingConfig examplePosition]"
    unfolding m2 by (simp add: emptyWorld_def)
  have c: "filter isMovingDelta (published (snd ?r)) = []"
    using m3 by (auto simp: emptyWorld_def filter_empty_conv)
  have "getEnabledPackages movingConfig \<noteq> [] \<and>
        isFailure (env_fetch failingEnv (length (requests ?w)) (requestAt movingConfig examplePosition))"
    using pk by (simp add: emptyWorld_def env isFailure_def)
  with fetch_failure_cycle[OF key, where env = failingEnv and position = "Some examplePosition"
      and st = movingState and w = "?w" and pos = examplePosition]
  have d: "fetchForecast failingEnv (Some examplePosition) movingConfig (movingState, ?w) =
     (movingState\<lparr>lastForecastUpdate := lateNow\<rparr>,
      emptyWorld\<lparr>requests := [requestAt movingConfig examplePosition,
                                requestAt movingConfig examplePosition]\<rparr>)"
    by (simp add: env(1) emptyWorld_def)
  show ?thesis using a b c d by simp
qed

end
